theory Spec2Isabelle
  imports Complex_Main "HOL-Library.Word" "HOL-Library.Stream"
begin

section \<open>Conventions of the embedding\<close>

text \<open>
  The program is \<^verbatim>\<open>src/script.js\<close>: a class \<^verbatim>\<open>AudioController\<close> (the microphone
  sensor) and a class \<^verbatim>\<open>Game\<close> (the engine).

  \<^item> A JavaScript number is modelled as a \<^typ>\<open>real\<close>: arithmetic is exact, and rounding,
    infinities and signed zeros of IEEE doubles are not represented. The one place where
    the code can produce NaN (the mean of an empty buffer, \<open>0 / 0\<close>) is modelled
    explicitly: the wind force is a \<^typ>\<open>real option\<close> and \<open>None\<close> stands for NaN.
  \<^item> An object is a record. The nested objects \<^verbatim>\<open>this.airplane\<close>,
    \<^verbatim>\<open>this.airplane.velocity\<close> and \<^verbatim>\<open>this.camera\<close> are never shared, so their
    fields are fields of the \<open>Game\<close> record, named after their path.
  \<^item> \<^verbatim>\<open>Math.random()\<close> is an input: each frame receives the stream of values that the
    calls of that frame return, in call order.
  \<^item> The canvas and the DOM are written but never read by the code; they are left out.
    The item \<^verbatim>\<open>paperWingsHighScore\<close> of \<^verbatim>\<open>localStorage\<close> is a field of the record.
\<close>

section \<open>AudioController\<close>

record AudioController =
  isListening :: bool
  dataArray :: "8 word list"

text \<open>The constructor: \<^verbatim>\<open>dataArray = null\<close> (no buffer), \<^verbatim>\<open>isListening = false\<close>.\<close>

definition newAudioController :: AudioController where
  "newAudioController = \<lparr>isListening = False, dataArray = []\<rparr>"

definition fftSize :: nat where
  "fftSize = 256"

text \<open>Web Audio: an analyser has half as many frequency bins as its FFT size.\<close>

definition frequencyBinCount :: nat where
  "frequencyBinCount = fftSize div 2"

text \<open>
  \<^verbatim>\<open>init()\<close>; the argument says whether \<^verbatim>\<open>getUserMedia\<close> resolved (the permission was
  granted) or threw. The result is the returned boolean and the controller.
\<close>

definition init :: "bool \<Rightarrow> AudioController \<Rightarrow> bool \<times> AudioController" where
  "init granted ac =
     (if granted
      then (True, ac\<lparr>dataArray := replicate frequencyBinCount 0, isListening := True\<rparr>)
      else (False, ac))"

text \<open>
  \<^verbatim>\<open>analyser.getByteFrequencyData(array)\<close> copies the analyser's current bins into the
  array: surplus bins are dropped, surplus array elements are left as they are.
\<close>

definition getByteFrequencyData :: "8 word list \<Rightarrow> 8 word list \<Rightarrow> 8 word list" where
  "getByteFrequencyData bins array = take (length array) bins @ drop (length bins) array"

text \<open>
  \<^verbatim>\<open>getVolume()\<close>. The first argument is what the analyser holds when it is called. The
  loop \<^verbatim>\<open>for (i = 0; i < length; i++) sum += dataArray[i]\<close> is a left fold. The result
  \<open>None\<close> is NaN, which \<^verbatim>\<open>Math.max\<close> and \<^verbatim>\<open>Math.min\<close> propagate.
\<close>

definition getVolume :: "8 word list \<Rightarrow> AudioController \<Rightarrow> real option \<times> AudioController" where
  "getVolume bins ac =
     (if \<not> isListening ac then (Some 0, ac)
      else
        let arr = getByteFrequencyData bins (dataArray ac);
            sum = foldl (\<lambda>s b. s + real (unat b)) 0 arr;
            average = (if length arr = 0 then None else Some (sum / real (length arr)))
        in (case average of
              None \<Rightarrow> None
            | Some a \<Rightarrow> Some (min (max ((a - 10) / 50) 0) 1),
            ac\<lparr>dataArray := arr\<rparr>))"

section \<open>Game: data\<close>

datatype GameState = START | PLAYING | END

record Cloud =
  cloud_x :: real
  cloud_y :: real
  cloud_width :: real
  cloud_speed :: real

record Particle =
  particle_x :: real
  particle_y :: real
  particle_vx :: real
  particle_vy :: real
  particle_life :: real

text \<open>
  \<^verbatim>\<open>hasStartedBlowing\<close> and \<^verbatim>\<open>canBlow\<close> are undefined (falsy) until the first
  \<^verbatim>\<open>resetPhysics()\<close>; the record holds \<open>False\<close> for them.
\<close>

record Game =
  audioController :: AudioController
  state :: GameState
  width :: real
  height :: real
  airplane_x :: real
  airplane_y :: real
  airplane_velocity_x :: real
  airplane_velocity_y :: real
  airplane_angle :: real
  airplane_scale :: real
  camera_x :: real
  clouds :: "Cloud list"
  particles :: "Particle list"
  distance :: real
  lastTime :: real
  highScore :: real
  hasStartedBlowing :: bool
  canBlow :: bool
  paperWingsHighScore :: "real option"

text \<open>One frame's inputs: the analyser's bins and the values of \<^verbatim>\<open>Math.random()\<close>.\<close>

record Frame =
  analyserBins :: "8 word list"
  random :: "real stream"

section \<open>Game: construction, reset, start\<close>

text \<open>\<^verbatim>\<open>spawnCloud(xOffset)\<close>: three random draws, in the order of the object literal.\<close>

definition spawnCloud :: "real \<Rightarrow> real stream \<Rightarrow> Game \<Rightarrow> Game \<times> real stream" where
  "spawnCloud xOffset rnd g =
     (let r1 = shd rnd; rnd = stl rnd;
          r2 = shd rnd; rnd = stl rnd;
          r3 = shd rnd; rnd = stl rnd
      in (g\<lparr>clouds := clouds g @
              [\<lparr>cloud_x = xOffset + camera_x g,
                cloud_y = r1 * (height g * 0.6),
                cloud_width = 100 + r2 * 150,
                cloud_speed = 0.2 + r3 * 0.5\<rparr>]\<rparr>, rnd))"

text \<open>The constructor's loop \<^verbatim>\<open>for (i = 0; i < 10; i++) spawnCloud(Math.random() * width)\<close>.\<close>

fun initialClouds :: "nat \<Rightarrow> real stream \<Rightarrow> Game \<Rightarrow> Game" where
  "initialClouds 0 rnd g = g"
| "initialClouds (Suc n) rnd g =
     (let r = shd rnd; rnd = stl rnd;
          (g, rnd) = spawnCloud (r * width g) rnd g
      in initialClouds n rnd g)"

text \<open>\<^verbatim>\<open>resize()\<close>, with the window's inner size as arguments.\<close>

definition resize :: "real \<Rightarrow> real \<Rightarrow> Game \<Rightarrow> Game" where
  "resize innerWidth innerHeight g = g\<lparr>width := innerWidth, height := innerHeight\<rparr>"

text \<open>
  \<^verbatim>\<open>new Game()\<close>, from the window's inner size, the stored item (\<open>None\<close> when
  \<^verbatim>\<open>getItem\<close> returns null) and the random draws. The stored item is a string that the
  comparison in \<open>endGame\<close> converts to a number; the record holds that number.
\<close>

definition newGame :: "real \<Rightarrow> real \<Rightarrow> real option \<Rightarrow> real stream \<Rightarrow> Game" where
  "newGame innerWidth innerHeight stored rnd =
     (let g = \<lparr>audioController = newAudioController,
               state = START,
               width = innerWidth,
               height = innerHeight,
               airplane_x = 100,
               airplane_y = innerHeight / 2,
               airplane_velocity_x = 0,
               airplane_velocity_y = 0,
               airplane_angle = 0,
               airplane_scale = 1.5,
               camera_x = 0,
               clouds = [],
               particles = [],
               distance = 0,
               lastTime = 0,
               highScore = (case stored of None \<Rightarrow> 0 | Some v \<Rightarrow> v),
               hasStartedBlowing = False,
               canBlow = False,
               paperWingsHighScore = stored\<rparr>;
          g = resize innerWidth innerHeight g
      in initialClouds 10 rnd g)"

definition resetPhysics :: "Game \<Rightarrow> Game" where
  "resetPhysics g =
     (let g = g\<lparr>airplane_x := 100\<rparr>;
          standHeight = height g * 0.6;
          g = g\<lparr>airplane_y := height g - 150 - standHeight\<rparr>;
          g = g\<lparr>airplane_velocity_x := 0, airplane_velocity_y := 0\<rparr>;
          g = g\<lparr>airplane_angle := 0\<rparr>;
          g = g\<lparr>distance := 0\<rparr>;
          g = g\<lparr>camera_x := 0\<rparr>;
          g = g\<lparr>hasStartedBlowing := False\<rparr>;
          g = g\<lparr>canBlow := True\<rparr>
      in g)"

definition resetGame :: "Game \<Rightarrow> Game" where
  "resetGame g = resetPhysics g"

text \<open>\<^verbatim>\<open>startGame()\<close>; the argument is the value of \<^verbatim>\<open>performance.now()\<close>.\<close>

definition startGame :: "real \<Rightarrow> Game \<Rightarrow> Game" where
  "startGame now g =
     (let g = g\<lparr>state := PLAYING\<rparr>;
          g = resetPhysics g;
          g = g\<lparr>lastTime := now\<rparr>
      in g)"

section \<open>Game: end of a round\<close>

definition endGame :: "Game \<Rightarrow> Game" where
  "endGame g =
     (let g = g\<lparr>state := END\<rparr>
      in if distance g > highScore g
         then (let g = g\<lparr>highScore := distance g\<rparr>
               in g\<lparr>paperWingsHighScore := Some (highScore g)\<rparr>)
         else g)"

section \<open>Game: the physics step\<close>

definition GRAVITY :: real where "GRAVITY = 0.75"
definition LIFT :: real where "LIFT = 0.5"
definition DRAG :: real where "DRAG = 0.98"
definition BOOST :: real where "BOOST = 1.2"
definition GLIDE_LIFT :: real where "GLIDE_LIFT = 0.02"
definition BLOW_THRESHOLD :: real where "BLOW_THRESHOLD = 0.60"

text \<open>\<^verbatim>\<open>Math.atan2(y, x)\<close> on reals.\<close>

definition atan2 :: "real \<Rightarrow> real \<Rightarrow> real" where
  "atan2 y x =
     (if 0 < x then arctan (y / x)
      else if x < 0 then (if 0 \<le> y then arctan (y / x) + pi else arctan (y / x) - pi)
      else if 0 < y then pi / 2
      else if y < 0 then - (pi / 2)
      else 0)"

text \<open>
  The step is the sequence of the blocks of \<^verbatim>\<open>update\<close>, each named after the comment
  that heads it in the source. ``Apply forces'': NaN is not greater than the threshold.
\<close>

definition applyForces :: "real option \<Rightarrow> real stream \<Rightarrow> Game \<Rightarrow> Game \<times> real stream" where
  "applyForces windForce rnd g =
     (case windForce of
        None \<Rightarrow> (g, rnd)
      | Some w \<Rightarrow>
          if w > BLOW_THRESHOLD then
            let g = g\<lparr>hasStartedBlowing := True\<rparr>;
                g = g\<lparr>airplane_velocity_x := airplane_velocity_x g + w * BOOST\<rparr>;
                g = g\<lparr>airplane_velocity_y := airplane_velocity_y g - w * LIFT\<rparr>;
                r0 = shd rnd; rnd = stl rnd
            in if r0 > 0.5 then
                 let r1 = shd rnd; rnd = stl rnd;
                     r2 = shd rnd; rnd = stl rnd;
                     r3 = shd rnd; rnd = stl rnd
                 in (g\<lparr>particles := particles g @
                         [\<lparr>particle_x = airplane_x g - 20,
                           particle_y = airplane_y g + (r1 - 0.5) * 20,
                           particle_vx = - 2 - r2 * 2,
                           particle_vy = (r3 - 0.5) * 1,
                           particle_life = 1.0\<rparr>]\<rparr>, rnd)
               else (g, rnd)
          else (g, rnd))"

definition naturalGlideLift :: "Game \<Rightarrow> Game" where
  "naturalGlideLift g =
     g\<lparr>airplane_velocity_y := airplane_velocity_y g - \<bar>airplane_velocity_x g\<bar> * GLIDE_LIFT\<rparr>"

definition gravity :: "Game \<Rightarrow> Game" where
  "gravity g =
     (if hasStartedBlowing g
      then g\<lparr>airplane_velocity_y := airplane_velocity_y g + GRAVITY\<rparr>
      else
        let g = g\<lparr>airplane_velocity_y := 0\<rparr>;
            g = g\<lparr>airplane_velocity_x := 0\<rparr>;
            standHeight = height g * 0.6
        in g\<lparr>airplane_y := height g - 150 - standHeight\<rparr>)"

definition drag :: "Game \<Rightarrow> Game" where
  "drag g =
     (let g = g\<lparr>airplane_velocity_x := airplane_velocity_x g * DRAG\<rparr>
      in g\<lparr>airplane_velocity_y := airplane_velocity_y g * DRAG\<rparr>)"

definition terminalVelocity :: "Game \<Rightarrow> Game" where
  "terminalVelocity g =
     (let g = g\<lparr>airplane_velocity_y := min (airplane_velocity_y g) 10\<rparr>
      in g\<lparr>airplane_velocity_x := min (airplane_velocity_x g) 20\<rparr>)"

definition updatePosition :: "Game \<Rightarrow> Game" where
  "updatePosition g =
     (let g = g\<lparr>airplane_x := airplane_x g + airplane_velocity_x g\<rparr>
      in g\<lparr>airplane_y := airplane_y g + airplane_velocity_y g\<rparr>)"

definition calculateAngle :: "Game \<Rightarrow> Game" where
  "calculateAngle g =
     (let targetAngle = atan2 (airplane_velocity_y g) (airplane_velocity_x g)
      in g\<lparr>airplane_angle := airplane_angle g + (targetAngle - airplane_angle g) * 0.1\<rparr>)"

definition updateDistance :: "Game \<Rightarrow> Game" where
  "updateDistance g = g\<lparr>distance := max 0 ((airplane_x g - 100) / 50)\<rparr>"

definition cameraFollow :: "Game \<Rightarrow> Game" where
  "cameraFollow g =
     (let targetCameraX = airplane_x g - width g * 0.3
      in g\<lparr>camera_x := max 0 targetCameraX\<rparr>)"

definition boundsCheckingGround :: "Game \<Rightarrow> Game" where
  "boundsCheckingGround g =
     (if airplane_y g > height g - 150 then endGame g else g)"

definition ceilingCheck :: "Game \<Rightarrow> Game" where
  "ceilingCheck g =
     (let ceilingY = height g * 0.2
      in if airplane_y g < ceilingY
         then (let g = g\<lparr>airplane_y := ceilingY\<rparr>
               in g\<lparr>airplane_velocity_y := airplane_velocity_y g * 0.5\<rparr>)
         else g)"

text \<open>
  ``Update Clouds''. \<^verbatim>\<open>||\<close> does not read the last cloud when there are fewer than 15.
\<close>

definition updateClouds :: "real stream \<Rightarrow> Game \<Rightarrow> Game" where
  "updateClouds rnd g =
     (let g =
        (if (if length (clouds g) < 15 then True
             else cloud_x (last (clouds g)) < camera_x g + width g)
         then
           let r0 = shd rnd; rnd = stl rnd
           in if r0 < 0.05 then
                let r1 = shd rnd; rnd = stl rnd
                in fst (spawnCloud (camera_x g + width g + r1 * 200) rnd g)
              else g
         else g)
      in g\<lparr>clouds :=
            filter (\<lambda>c. let parallaxX = cloud_x c - camera_x g * 0.5
                        in parallaxX + cloud_width c > - 100) (clouds g)\<rparr>)"

definition updateParticles :: "Game \<Rightarrow> Game" where
  "updateParticles g =
     (let g = g\<lparr>particles :=
                 map (\<lambda>p. p\<lparr>particle_x := particle_x p + particle_vx p,
                            particle_y := particle_y p + particle_vy p,
                            particle_life := particle_life p - 0.05\<rparr>) (particles g)\<rparr>
      in g\<lparr>particles := filter (\<lambda>p. particle_life p > 0) (particles g)\<rparr>)"

text \<open>
  The first part of \<^verbatim>\<open>update\<close>, for a game that is \<open>PLAYING\<close>: from the reading of the
  sensor to the camera. The result is the game as the two bounds checks find it, and the
  random draws left for the clouds.
\<close>

definition updateMotion :: "Frame \<Rightarrow> Game \<Rightarrow> Game \<times> real stream" where
  "updateMotion env g =
     (let (windForce, ac) = getVolume (analyserBins env) (audioController g);
          g = g\<lparr>audioController := ac\<rparr>;
          (g, rnd) = applyForces windForce (random env) g;
          g = naturalGlideLift g;
          g = gravity g;
          g = drag g;
          g = terminalVelocity g;
          g = updatePosition g;
          g = calculateAngle g;
          g = updateDistance g;
          g = cameraFollow g
      in (g, rnd))"

text \<open>\<^verbatim>\<open>update(dt)\<close>.\<close>

definition update :: "real \<Rightarrow> Frame \<Rightarrow> Game \<Rightarrow> Game" where
  "update dt env g =
     (if state g \<noteq> PLAYING then g
      else
        let (g, rnd) = updateMotion env g;
            g = boundsCheckingGround g;
            g = ceilingCheck g;
            g = updateClouds rnd g;
            g = updateParticles g
        in g)"

text \<open>
  \<^verbatim>\<open>loop(timestamp)\<close>. \<^verbatim>\<open>draw()\<close> and \<^verbatim>\<open>updateUI()\<close> read the game and write the
  canvas and the DOM; \<^verbatim>\<open>requestAnimationFrame\<close> asks for the next call.
\<close>

definition loop :: "real \<Rightarrow> Frame \<Rightarrow> Game \<Rightarrow> Game" where
  "loop timestamp env g =
     (if state g \<noteq> PLAYING then g
      else
        let dt = (timestamp - lastTime g) / 16;
            g = g\<lparr>lastTime := timestamp\<rparr>
        in update dt env g)"

section \<open>Events\<close>

text \<open>
  The handlers that \<^verbatim>\<open>bindEvents\<close> installs. The start button initialises the sensor
  and starts the game when that succeeded; the restart button resets and starts.
\<close>

definition startBtnClick :: "bool \<Rightarrow> real \<Rightarrow> Game \<Rightarrow> Game" where
  "startBtnClick granted now g =
     (let (success, ac) = init granted (audioController g);
          g = g\<lparr>audioController := ac\<rparr>
      in if success then startGame now g else g)"

definition restartBtnClick :: "real \<Rightarrow> Game \<Rightarrow> Game" where
  "restartBtnClick now g =
     (let g = resetGame g
      in startGame now g)"

text \<open>
  What the browser can deliver to a game: a click on either button, a resize of the
  window, an animation frame (with its timestamp and its inputs).
\<close>

datatype Event =
  StartBtn bool real
| RestartBtn real
| WindowResize real real
| AnimationFrame real Frame

fun handle :: "Event \<Rightarrow> Game \<Rightarrow> Game" where
  "handle (StartBtn granted now) g = startBtnClick granted now g"
| "handle (RestartBtn now) g = restartBtnClick now g"
| "handle (WindowResize innerWidth innerHeight) g = resize innerWidth innerHeight g"
| "handle (AnimationFrame timestamp env) g = loop timestamp env g"

fun run :: "Event list \<Rightarrow> Game \<Rightarrow> Game" where
  "run [] g = g"
| "run (e # es) g = run es (handle e g)"

text \<open>The events that leave a run going: frames and resizes.\<close>

fun withinRun :: "Event \<Rightarrow> bool" where
  "withinRun (WindowResize innerWidth innerHeight) = True"
| "withinRun (AnimationFrame timestamp env) = True"
| "withinRun e = False"

fun isFrame :: "Event \<Rightarrow> bool" where
  "isFrame (AnimationFrame timestamp env) = True"
| "isFrame e = False"

section \<open>Notions used in the statements\<close>

text \<open>The test \<^verbatim>\<open>windForce > BLOW_THRESHOLD\<close> of ``Apply forces''.\<close>

definition blows :: "real option \<Rightarrow> bool" where
  "blows windForce = (case windForce of None \<Rightarrow> False | Some w \<Rightarrow> w > BLOW_THRESHOLD)"

text \<open>The stored high score as a number; the constructor reads an absent item as 0.\<close>

definition persisted :: "Game \<Rightarrow> real" where
  "persisted g = (case paperWingsHighScore g of None \<Rightarrow> 0 | Some v \<Rightarrow> v)"

text \<open>
  The game at rest in a window of 800 by 600: constructed with nothing stored, started
  with the start button (permission granted). Every random draw is \<open>1/2\<close>.
\<close>

definition rest800x600 :: Game where
  "rest800x600 = startBtnClick True 0 (newGame 800 600 None (sconst (1 / 2)))"

text \<open>
  A frame in which every frequency bin has the magnitude \<open>b\<close>; with 128 bins the wind
  force is then \<open>(b - 10) / 50\<close> clamped to the unit interval: 0 for \<open>b = 0\<close>, 0.8 for
  \<open>b = 50\<close>.
\<close>

definition steadyFrame :: "8 word \<Rightarrow> Frame" where
  "steadyFrame b = \<lparr>analyserBins = replicate frequencyBinCount b, random = sconst (1 / 2)\<rparr>"

text \<open>
  A game in a window of 300 by 800: constructed, started with the start button, and given
  one frame in which every bin has the magnitude 60 (wind force 1).
\<close>

definition narrowBlown :: Game where
  "narrowBlown =
     run [StartBtn True 0, AnimationFrame 16 (steadyFrame 60)]
       (newGame 300 800 None (sconst (1 / 2)))"


section \<open>What each block of the step reads and writes\<close>

lemma foldl_plus_sum_list:
  "foldl (\<lambda>s b. s + f b) a xs = a + sum_list (map f xs)" for a :: real
  by (induction xs arbitrary: a) simp_all

text \<open>The fields that a block leaves as they are.\<close>

lemma naturalGlideLift_keeps:
  "audioController (naturalGlideLift g) = audioController g"
  "state (naturalGlideLift g) = state g"
  "width (naturalGlideLift g) = width g"
  "height (naturalGlideLift g) = height g"
  "airplane_x (naturalGlideLift g) = airplane_x g"
  "airplane_y (naturalGlideLift g) = airplane_y g"
  "airplane_velocity_x (naturalGlideLift g) = airplane_velocity_x g"
  "camera_x (naturalGlideLift g) = camera_x g"
  "distance (naturalGlideLift g) = distance g"
  "highScore (naturalGlideLift g) = highScore g"
  "hasStartedBlowing (naturalGlideLift g) = hasStartedBlowing g"
  "paperWingsHighScore (naturalGlideLift g) = paperWingsHighScore g"
  by (simp_all add: naturalGlideLift_def Let_def)

lemma gravity_keeps:
  "audioController (gravity g) = audioController g"
  "state (gravity g) = state g"
  "width (gravity g) = width g"
  "height (gravity g) = height g"
  "airplane_x (gravity g) = airplane_x g"
  "camera_x (gravity g) = camera_x g"
  "distance (gravity g) = distance g"
  "highScore (gravity g) = highScore g"
  "hasStartedBlowing (gravity g) = hasStartedBlowing g"
  "paperWingsHighScore (gravity g) = paperWingsHighScore g"
  by (simp_all add: gravity_def Let_def)

lemma drag_keeps:
  "audioController (drag g) = audioController g"
  "state (drag g) = state g"
  "width (drag g) = width g"
  "height (drag g) = height g"
  "airplane_x (drag g) = airplane_x g"
  "airplane_y (drag g) = airplane_y g"
  "camera_x (drag g) = camera_x g"
  "distance (drag g) = distance g"
  "highScore (drag g) = highScore g"
  "hasStartedBlowing (drag g) = hasStartedBlowing g"
  "paperWingsHighScore (drag g) = paperWingsHighScore g"
  by (simp_all add: drag_def Let_def)

lemma terminalVelocity_keeps:
  "audioController (terminalVelocity g) = audioController g"
  "state (terminalVelocity g) = state g"
  "width (terminalVelocity g) = width g"
  "height (terminalVelocity g) = height g"
  "airplane_x (terminalVelocity g) = airplane_x g"
  "airplane_y (terminalVelocity g) = airplane_y g"
  "camera_x (terminalVelocity g) = camera_x g"
  "distance (terminalVelocity g) = distance g"
  "highScore (terminalVelocity g) = highScore g"
  "hasStartedBlowing (terminalVelocity g) = hasStartedBlowing g"
  "paperWingsHighScore (terminalVelocity g) = paperWingsHighScore g"
  by (simp_all add: terminalVelocity_def Let_def)

lemma updatePosition_keeps:
  "audioController (updatePosition g) = audioController g"
  "state (updatePosition g) = state g"
  "width (updatePosition g) = width g"
  "height (updatePosition g) = height g"
  "airplane_velocity_x (updatePosition g) = airplane_velocity_x g"
  "airplane_velocity_y (updatePosition g) = airplane_velocity_y g"
  "camera_x (updatePosition g) = camera_x g"
  "distance (updatePosition g) = distance g"
  "highScore (updatePosition g) = highScore g"
  "hasStartedBlowing (updatePosition g) = hasStartedBlowing g"
  "paperWingsHighScore (updatePosition g) = paperWingsHighScore g"
  by (simp_all add: updatePosition_def Let_def)

lemma calculateAngle_keeps:
  "audioController (calculateAngle g) = audioController g"
  "state (calculateAngle g) = state g"
  "width (calculateAngle g) = width g"
  "height (calculateAngle g) = height g"
  "airplane_x (calculateAngle g) = airplane_x g"
  "airplane_y (calculateAngle g) = airplane_y g"
  "airplane_velocity_x (calculateAngle g) = airplane_velocity_x g"
  "airplane_velocity_y (calculateAngle g) = airplane_velocity_y g"
  "camera_x (calculateAngle g) = camera_x g"
  "distance (calculateAngle g) = distance g"
  "highScore (calculateAngle g) = highScore g"
  "hasStartedBlowing (calculateAngle g) = hasStartedBlowing g"
  "paperWingsHighScore (calculateAngle g) = paperWingsHighScore g"
  by (simp_all add: calculateAngle_def Let_def)

lemma updateDistance_keeps:
  "audioController (updateDistance g) = audioController g"
  "state (updateDistance g) = state g"
  "width (updateDistance g) = width g"
  "height (updateDistance g) = height g"
  "airplane_x (updateDistance g) = airplane_x g"
  "airplane_y (updateDistance g) = airplane_y g"
  "airplane_velocity_x (updateDistance g) = airplane_velocity_x g"
  "airplane_velocity_y (updateDistance g) = airplane_velocity_y g"
  "camera_x (updateDistance g) = camera_x g"
  "highScore (updateDistance g) = highScore g"
  "hasStartedBlowing (updateDistance g) = hasStartedBlowing g"
  "paperWingsHighScore (updateDistance g) = paperWingsHighScore g"
  by (simp_all add: updateDistance_def Let_def)

lemma cameraFollow_keeps:
  "audioController (cameraFollow g) = audioController g"
  "state (cameraFollow g) = state g"
  "width (cameraFollow g) = width g"
  "height (cameraFollow g) = height g"
  "airplane_x (cameraFollow g) = airplane_x g"
  "airplane_y (cameraFollow g) = airplane_y g"
  "airplane_velocity_x (cameraFollow g) = airplane_velocity_x g"
  "airplane_velocity_y (cameraFollow g) = airplane_velocity_y g"
  "distance (cameraFollow g) = distance g"
  "highScore (cameraFollow g) = highScore g"
  "hasStartedBlowing (cameraFollow g) = hasStartedBlowing g"
  "paperWingsHighScore (cameraFollow g) = paperWingsHighScore g"
  by (simp_all add: cameraFollow_def Let_def)

lemma endGame_keeps:
  "audioController (endGame g) = audioController g"
  "width (endGame g) = width g"
  "height (endGame g) = height g"
  "airplane_x (endGame g) = airplane_x g"
  "airplane_y (endGame g) = airplane_y g"
  "airplane_velocity_x (endGame g) = airplane_velocity_x g"
  "airplane_velocity_y (endGame g) = airplane_velocity_y g"
  "camera_x (endGame g) = camera_x g"
  "distance (endGame g) = distance g"
  "hasStartedBlowing (endGame g) = hasStartedBlowing g"
  by (simp_all add: endGame_def Let_def)

lemma boundsCheckingGround_keeps:
  "audioController (boundsCheckingGround g) = audioController g"
  "width (boundsCheckingGround g) = width g"
  "height (boundsCheckingGround g) = height g"
  "airplane_x (boundsCheckingGround g) = airplane_x g"
  "airplane_y (boundsCheckingGround g) = airplane_y g"
  "airplane_velocity_x (boundsCheckingGround g) = airplane_velocity_x g"
  "airplane_velocity_y (boundsCheckingGround g) = airplane_velocity_y g"
  "camera_x (boundsCheckingGround g) = camera_x g"
  "distance (boundsCheckingGround g) = distance g"
  "hasStartedBlowing (boundsCheckingGround g) = hasStartedBlowing g"
  by (simp_all add: boundsCheckingGround_def Let_def endGame_def)

lemma ceilingCheck_keeps:
  "audioController (ceilingCheck g) = audioController g"
  "state (ceilingCheck g) = state g"
  "width (ceilingCheck g) = width g"
  "height (ceilingCheck g) = height g"
  "airplane_x (ceilingCheck g) = airplane_x g"
  "airplane_velocity_x (ceilingCheck g) = airplane_velocity_x g"
  "camera_x (ceilingCheck g) = camera_x g"
  "distance (ceilingCheck g) = distance g"
  "highScore (ceilingCheck g) = highScore g"
  "hasStartedBlowing (ceilingCheck g) = hasStartedBlowing g"
  "paperWingsHighScore (ceilingCheck g) = paperWingsHighScore g"
  by (simp_all add: ceilingCheck_def Let_def)

lemma updateParticles_keeps:
  "audioController (updateParticles g) = audioController g"
  "state (updateParticles g) = state g"
  "width (updateParticles g) = width g"
  "height (updateParticles g) = height g"
  "airplane_x (updateParticles g) = airplane_x g"
  "airplane_y (updateParticles g) = airplane_y g"
  "airplane_velocity_x (updateParticles g) = airplane_velocity_x g"
  "airplane_velocity_y (updateParticles g) = airplane_velocity_y g"
  "camera_x (updateParticles g) = camera_x g"
  "distance (updateParticles g) = distance g"
  "highScore (updateParticles g) = highScore g"
  "hasStartedBlowing (updateParticles g) = hasStartedBlowing g"
  "paperWingsHighScore (updateParticles g) = paperWingsHighScore g"
  by (simp_all add: updateParticles_def Let_def)

lemma resetPhysics_keeps:
  "audioController (resetPhysics g) = audioController g"
  "state (resetPhysics g) = state g"
  "width (resetPhysics g) = width g"
  "height (resetPhysics g) = height g"
  "highScore (resetPhysics g) = highScore g"
  "paperWingsHighScore (resetPhysics g) = paperWingsHighScore g"
  by (simp_all add: resetPhysics_def Let_def)

lemma applyForces_keeps:
  "audioController (fst (applyForces w rnd g)) = audioController g"
  "state (fst (applyForces w rnd g)) = state g"
  "width (fst (applyForces w rnd g)) = width g"
  "height (fst (applyForces w rnd g)) = height g"
  "airplane_x (fst (applyForces w rnd g)) = airplane_x g"
  "airplane_y (fst (applyForces w rnd g)) = airplane_y g"
  "camera_x (fst (applyForces w rnd g)) = camera_x g"
  "distance (fst (applyForces w rnd g)) = distance g"
  "highScore (fst (applyForces w rnd g)) = highScore g"
  "paperWingsHighScore (fst (applyForces w rnd g)) = paperWingsHighScore g"
  by (simp_all add: applyForces_def Let_def split: option.splits)

lemma updateClouds_keeps:
  "audioController (updateClouds rnd g) = audioController g"
  "state (updateClouds rnd g) = state g"
  "width (updateClouds rnd g) = width g"
  "height (updateClouds rnd g) = height g"
  "airplane_x (updateClouds rnd g) = airplane_x g"
  "airplane_y (updateClouds rnd g) = airplane_y g"
  "airplane_velocity_x (updateClouds rnd g) = airplane_velocity_x g"
  "airplane_velocity_y (updateClouds rnd g) = airplane_velocity_y g"
  "camera_x (updateClouds rnd g) = camera_x g"
  "distance (updateClouds rnd g) = distance g"
  "highScore (updateClouds rnd g) = highScore g"
  "hasStartedBlowing (updateClouds rnd g) = hasStartedBlowing g"
  "paperWingsHighScore (updateClouds rnd g) = paperWingsHighScore g"
  by (simp_all add: updateClouds_def spawnCloud_def Let_def)

lemma resize_keeps:
  "audioController (resize w h g) = audioController g"
  "state (resize w h g) = state g"
  "airplane_x (resize w h g) = airplane_x g"
  "airplane_y (resize w h g) = airplane_y g"
  "airplane_velocity_x (resize w h g) = airplane_velocity_x g"
  "airplane_velocity_y (resize w h g) = airplane_velocity_y g"
  "camera_x (resize w h g) = camera_x g"
  "distance (resize w h g) = distance g"
  "highScore (resize w h g) = highScore g"
  "hasStartedBlowing (resize w h g) = hasStartedBlowing g"
  "paperWingsHighScore (resize w h g) = paperWingsHighScore g"
  by (simp_all add: resize_def)

text \<open>The fields that a block writes.\<close>

lemma applyForces_sets:
  "hasStartedBlowing (fst (applyForces w rnd g)) = (hasStartedBlowing g \<or> blows w)"
  "airplane_velocity_x (fst (applyForces w rnd g)) =
     (if blows w then airplane_velocity_x g + the w * BOOST else airplane_velocity_x g)"
  "airplane_velocity_y (fst (applyForces w rnd g)) =
     (if blows w then airplane_velocity_y g - the w * LIFT else airplane_velocity_y g)"
  by (simp_all add: applyForces_def blows_def Let_def split: option.splits)

lemma naturalGlideLift_sets:
  "airplane_velocity_y (naturalGlideLift g) =
     airplane_velocity_y g - \<bar>airplane_velocity_x g\<bar> * GLIDE_LIFT"
  by (simp add: naturalGlideLift_def)

lemma gravity_sets:
  "airplane_velocity_x (gravity g) = (if hasStartedBlowing g then airplane_velocity_x g else 0)"
  "airplane_velocity_y (gravity g) =
     (if hasStartedBlowing g then airplane_velocity_y g + GRAVITY else 0)"
  "airplane_y (gravity g) =
     (if hasStartedBlowing g then airplane_y g else height g - 150 - height g * 0.6)"
  by (simp_all add: gravity_def Let_def)

lemma drag_sets:
  "airplane_velocity_x (drag g) = airplane_velocity_x g * DRAG"
  "airplane_velocity_y (drag g) = airplane_velocity_y g * DRAG"
  by (simp_all add: drag_def Let_def)

lemma terminalVelocity_sets:
  "airplane_velocity_x (terminalVelocity g) = min (airplane_velocity_x g) 20"
  "airplane_velocity_y (terminalVelocity g) = min (airplane_velocity_y g) 10"
  by (simp_all add: terminalVelocity_def Let_def)

lemma updatePosition_sets:
  "airplane_x (updatePosition g) = airplane_x g + airplane_velocity_x g"
  "airplane_y (updatePosition g) = airplane_y g + airplane_velocity_y g"
  by (simp_all add: updatePosition_def Let_def)

lemma updateDistance_sets:
  "distance (updateDistance g) = max 0 ((airplane_x g - 100) / 50)"
  by (simp add: updateDistance_def)

lemma cameraFollow_sets:
  "camera_x (cameraFollow g) = max 0 (airplane_x g - width g * 0.3)"
  by (simp add: cameraFollow_def Let_def)

lemma endGame_sets:
  "state (endGame g) = END"
  "highScore (endGame g) = (if distance g > highScore g then distance g else highScore g)"
  "paperWingsHighScore (endGame g) =
     (if distance g > highScore g then Some (distance g) else paperWingsHighScore g)"
  by (simp_all add: endGame_def Let_def)

lemma boundsCheckingGround_sets:
  "state (boundsCheckingGround g) = (if airplane_y g > height g - 150 then END else state g)"
  "highScore (boundsCheckingGround g) =
     (if airplane_y g > height g - 150 \<and> distance g > highScore g
      then distance g else highScore g)"
  "paperWingsHighScore (boundsCheckingGround g) =
     (if airplane_y g > height g - 150 \<and> distance g > highScore g
      then Some (distance g) else paperWingsHighScore g)"
  by (simp_all add: boundsCheckingGround_def endGame_sets)

lemma ceilingCheck_sets:
  "airplane_y (ceilingCheck g) =
     (if airplane_y g < height g * 0.2 then height g * 0.2 else airplane_y g)"
  "airplane_velocity_y (ceilingCheck g) =
     (if airplane_y g < height g * 0.2 then airplane_velocity_y g * 0.5
      else airplane_velocity_y g)"
  by (simp_all add: ceilingCheck_def Let_def)

lemma resetPhysics_sets:
  "airplane_x (resetPhysics g) = 100"
  "airplane_y (resetPhysics g) = height g - 150 - height g * 0.6"
  "airplane_velocity_x (resetPhysics g) = 0"
  "airplane_velocity_y (resetPhysics g) = 0"
  "camera_x (resetPhysics g) = 0"
  "distance (resetPhysics g) = 0"
  "hasStartedBlowing (resetPhysics g) = False"
  by (simp_all add: resetPhysics_def Let_def)

lemmas phase_keeps = applyForces_keeps naturalGlideLift_keeps gravity_keeps drag_keeps
  terminalVelocity_keeps updatePosition_keeps calculateAngle_keeps updateDistance_keeps
  cameraFollow_keeps

lemmas phase_sets = applyForces_sets naturalGlideLift_sets gravity_sets drag_sets
  terminalVelocity_sets updatePosition_sets updateDistance_sets cameraFollow_sets

text \<open>The motion part as a composition of its blocks.\<close>

lemma updateMotion_fst:
  "fst (updateMotion env g) =
     cameraFollow (updateDistance (calculateAngle (updatePosition (terminalVelocity (drag
       (gravity (naturalGlideLift (fst (applyForces
          (fst (getVolume (analyserBins env) (audioController g))) (random env)
          (g\<lparr>audioController := snd (getVolume (analyserBins env) (audioController g))\<rparr>))))))))))"
  by (simp add: updateMotion_def Let_def split_beta)

lemma updateMotion_keeps:
  "state (fst (updateMotion env g)) = state g"
  "width (fst (updateMotion env g)) = width g"
  "height (fst (updateMotion env g)) = height g"
  "highScore (fst (updateMotion env g)) = highScore g"
  "paperWingsHighScore (fst (updateMotion env g)) = paperWingsHighScore g"
  by (simp_all add: updateMotion_fst phase_keeps)

lemma updateMotion_latch:
  "hasStartedBlowing (fst (updateMotion env g)) =
     (hasStartedBlowing g \<or> blows (fst (getVolume (analyserBins env) (audioController g))))"
  by (simp add: updateMotion_fst phase_keeps phase_sets)

lemma updateMotion_velocity_x:
  "airplane_velocity_x (fst (updateMotion env g)) =
     (if blows (fst (getVolume (analyserBins env) (audioController g)))
      then min ((airplane_velocity_x g +
                 the (fst (getVolume (analyserBins env) (audioController g))) * BOOST) * DRAG) 20
      else if hasStartedBlowing g then min (airplane_velocity_x g * DRAG) 20
      else 0)"
  by (simp add: updateMotion_fst phase_keeps phase_sets DRAG_def)

lemma updateMotion_x:
  "airplane_x (fst (updateMotion env g)) =
     airplane_x g + airplane_velocity_x (fst (updateMotion env g))"
  by (simp add: updateMotion_fst phase_keeps phase_sets)

lemma updateMotion_distance:
  "distance (fst (updateMotion env g)) =
     max 0 ((airplane_x (fst (updateMotion env g)) - 100) / 50)"
  by (simp add: updateMotion_fst phase_keeps phase_sets)

lemma updateMotion_camera:
  "camera_x (fst (updateMotion env g)) =
     max 0 (airplane_x (fst (updateMotion env g)) - width g * 0.3)"
  by (simp add: updateMotion_fst phase_keeps phase_sets)

lemma updateMotion_resting:
  assumes "\<not> hasStartedBlowing (fst (updateMotion env g))"
  shows "airplane_velocity_x (fst (updateMotion env g)) = 0"
    and "airplane_velocity_y (fst (updateMotion env g)) = 0"
    and "airplane_y (fst (updateMotion env g)) = height g - 150 - height g * 0.6"
    and "airplane_x (fst (updateMotion env g)) = airplane_x g"
  using assms by (simp_all add: updateMotion_fst phase_keeps phase_sets)

text \<open>The step of a game that is \<open>PLAYING\<close>, as a composition.\<close>

lemma update_PLAYING:
  "state g = PLAYING \<Longrightarrow>
   update dt env g =
     updateParticles (updateClouds (snd (updateMotion env g))
       (ceilingCheck (boundsCheckingGround (fst (updateMotion env g)))))"
  by (simp add: update_def Let_def split_beta)


lemma update_not_PLAYING: "state g \<noteq> PLAYING \<Longrightarrow> update dt env g = g"
  by (simp add: update_def)

lemmas check_keeps = boundsCheckingGround_keeps ceilingCheck_keeps updateClouds_keeps
  updateParticles_keeps

lemma update_keeps:
  "width (update dt env g) = width g"
  "height (update dt env g) = height g"
  by (cases "state g = PLAYING";
      simp add: update_PLAYING update_not_PLAYING check_keeps updateMotion_keeps)+

lemma update_motion_fields:
  assumes "state g = PLAYING"
  shows "airplane_x (update dt env g) = airplane_x (fst (updateMotion env g))"
    and "airplane_velocity_x (update dt env g) = airplane_velocity_x (fst (updateMotion env g))"
    and "distance (update dt env g) = distance (fst (updateMotion env g))"
    and "camera_x (update dt env g) = camera_x (fst (updateMotion env g))"
    and "hasStartedBlowing (update dt env g) = hasStartedBlowing (fst (updateMotion env g))"
  using assms by (simp_all add: update_PLAYING check_keeps)

lemma update_checked_fields:
  assumes "state g = PLAYING"
  shows "state (update dt env g) =
           (if airplane_y (fst (updateMotion env g)) > height g - 150 then END else PLAYING)"
    and "airplane_y (update dt env g) =
           (if airplane_y (fst (updateMotion env g)) < height g * 0.2 then height g * 0.2
            else airplane_y (fst (updateMotion env g)))"
    and "airplane_velocity_y (update dt env g) =
           (if airplane_y (fst (updateMotion env g)) < height g * 0.2
            then airplane_velocity_y (fst (updateMotion env g)) * 0.5
            else airplane_velocity_y (fst (updateMotion env g)))"
  using assms
  by (simp_all add: update_PLAYING check_keeps boundsCheckingGround_sets ceilingCheck_sets
      updateMotion_keeps)

section \<open>The sensor\<close>

lemma getByteFrequencyData_length:
  "length (getByteFrequencyData bins array) = length array"
  by (simp add: getByteFrequencyData_def)

lemma getByteFrequencyData_Nil:
  "getByteFrequencyData bins array = [] \<longleftrightarrow> array = []"
  using getByteFrequencyData_length [of bins array] by (metis length_0_conv)

lemma getVolume_active:
  assumes "isListening ac" and "dataArray ac \<noteq> []"
  shows "fst (getVolume bins ac) =
           Some (min (max ((sum_list (map (\<lambda>b. real (unat b)) (dataArray (snd (getVolume bins ac))))
                            / real (length (dataArray (snd (getVolume bins ac)))) - 10) / 50) 0) 1)"
  using assms
  by (simp add: getVolume_def Let_def getByteFrequencyData_length getByteFrequencyData_Nil
      foldl_plus_sum_list)

text \<open>
  A controller is active only after a successful \<open>init\<close>, which gives it a buffer of
  128 bins; \<open>getVolume\<close> changes neither the flag nor the length of the buffer.
\<close>

lemma sensor_shape:
  "isListening (snd (init True ac))"
  "length (dataArray (snd (init True ac))) = 128"
  "isListening (snd (getVolume bins ac)) = isListening ac"
  "length (dataArray (snd (getVolume bins ac))) = length (dataArray ac)"
  by (simp_all add: init_def frequencyBinCount_def fftSize_def getVolume_def Let_def
      getByteFrequencyData_length)

lemma getVolume_buffer:
  "isListening ac \<Longrightarrow>
   dataArray (snd (getVolume bins ac)) = getByteFrequencyData bins (dataArray ac)"
  by (simp add: getVolume_def Let_def)

lemma getByteFrequencyData_same_length:
  "length bins = length array \<Longrightarrow> getByteFrequencyData bins array = bins"
  by (simp add: getByteFrequencyData_def)

text \<open>
  C2. \<open>getVolume\<close> returns 0 when the sensor is inactive. When it is active it copies
  the analyser's bins into the buffer and returns the mean of the magnitudes of all bins
  of the buffer, minus the noise floor 10, divided by 50, clamped to the unit interval;
  the analyser has as many bins as the buffer, and the value is then that of the mean of
  the analyser's bins. So every value it returns lies between 0 and 1. The buffer of an
  active sensor is not empty (it has 128 bins); the mean of an empty buffer would be NaN.
\<close>

theorem getVolume_unit_interval:
  assumes "isListening ac \<longrightarrow> dataArray ac \<noteq> []"
  shows "(\<not> isListening ac \<longrightarrow> fst (getVolume bins ac) = Some 0)
       \<and> (isListening ac \<longrightarrow>
            dataArray (snd (getVolume bins ac)) = getByteFrequencyData bins (dataArray ac)
            \<and> fst (getVolume bins ac) =
                Some (min (max ((sum_list (map (\<lambda>b. real (unat b))
                                   (getByteFrequencyData bins (dataArray ac)))
                                 / real (length (dataArray ac)) - 10) / 50) 0) 1))
       \<and> (isListening ac \<and> length bins = length (dataArray ac) \<longrightarrow>
            fst (getVolume bins ac) =
              Some (min (max ((sum_list (map (\<lambda>b. real (unat b)) bins)
                               / real (length bins) - 10) / 50) 0) 1))
       \<and> (\<exists>v. fst (getVolume bins ac) = Some v \<and> 0 \<le> v \<and> v \<le> 1)"
proof (cases "isListening ac")
  case False
  then show ?thesis by (simp add: getVolume_def)
next
  case True
  with assms have "dataArray ac \<noteq> []" by simp
  from getVolume_active [OF True this, of bins] True show ?thesis
    by (auto simp add: getVolume_buffer getByteFrequencyData_length
        getByteFrequencyData_same_length max_def min_def)
qed

theorem getVolume_unit_interval_witness:
  "isListening (snd (init True newAudioController))
   \<and> dataArray (snd (init True newAudioController)) \<noteq> []
   \<and> length (replicate 64 40 @ replicate 64 (20 :: 8 word)) =
       length (dataArray (snd (init True newAudioController)))
   \<and> fst (getVolume (replicate 64 40 @ replicate 64 20) (snd (init True newAudioController)))
       = Some (2 / 5)"
proof -
  let ?ac = "snd (init True newAudioController)"
  have shape: "isListening ?ac \<longrightarrow> dataArray ?ac \<noteq> []"
    using sensor_shape(2) [of newAudioController] by auto
  let ?bins = "replicate 64 40 @ replicate 64 (20 :: 8 word)"
  have len: "length ?bins = length (dataArray ?ac)"
    by (simp add: sensor_shape)
  have "fst (getVolume ?bins ?ac) =
      Some (min (max ((sum_list (map (\<lambda>b. real (unat b)) ?bins)
                       / real (length ?bins) - 10) / 50) 0) 1)"
    using getVolume_unit_interval [OF shape, of ?bins] len sensor_shape(1) [of newAudioController]
    by blast
  with shape len show ?thesis
    by (simp add: sensor_shape sum_list_replicate)
qed

section \<open>Frames\<close>

lemma loop_not_PLAYING: "state g \<noteq> PLAYING \<Longrightarrow> loop timestamp env g = g"
  by (simp add: loop_def)

lemma loop_PLAYING:
  "state g = PLAYING \<Longrightarrow> loop timestamp env g = update dt env (g\<lparr>lastTime := timestamp\<rparr>)"
  by (simp add: loop_def update_def Let_def)

lemma lastTime_commutes:
  "fst (applyForces w rnd (g\<lparr>lastTime := t\<rparr>)) = (fst (applyForces w rnd g))\<lparr>lastTime := t\<rparr>"
  "snd (applyForces w rnd (g\<lparr>lastTime := t\<rparr>)) = snd (applyForces w rnd g)"
  "naturalGlideLift (g\<lparr>lastTime := t\<rparr>) = (naturalGlideLift g)\<lparr>lastTime := t\<rparr>"
  "gravity (g\<lparr>lastTime := t\<rparr>) = (gravity g)\<lparr>lastTime := t\<rparr>"
  "drag (g\<lparr>lastTime := t\<rparr>) = (drag g)\<lparr>lastTime := t\<rparr>"
  "terminalVelocity (g\<lparr>lastTime := t\<rparr>) = (terminalVelocity g)\<lparr>lastTime := t\<rparr>"
  "updatePosition (g\<lparr>lastTime := t\<rparr>) = (updatePosition g)\<lparr>lastTime := t\<rparr>"
  "calculateAngle (g\<lparr>lastTime := t\<rparr>) = (calculateAngle g)\<lparr>lastTime := t\<rparr>"
  "updateDistance (g\<lparr>lastTime := t\<rparr>) = (updateDistance g)\<lparr>lastTime := t\<rparr>"
  "cameraFollow (g\<lparr>lastTime := t\<rparr>) = (cameraFollow g)\<lparr>lastTime := t\<rparr>"
  "boundsCheckingGround (g\<lparr>lastTime := t\<rparr>) = (boundsCheckingGround g)\<lparr>lastTime := t\<rparr>"
  "ceilingCheck (g\<lparr>lastTime := t\<rparr>) = (ceilingCheck g)\<lparr>lastTime := t\<rparr>"
  "updateClouds rnd (g\<lparr>lastTime := t\<rparr>) = (updateClouds rnd g)\<lparr>lastTime := t\<rparr>"
  "updateParticles (g\<lparr>lastTime := t\<rparr>) = (updateParticles g)\<lparr>lastTime := t\<rparr>"
  by (simp_all add: applyForces_def naturalGlideLift_def gravity_def drag_def
      terminalVelocity_def updatePosition_def calculateAngle_def updateDistance_def
      cameraFollow_def boundsCheckingGround_def endGame_def ceilingCheck_def updateClouds_def
      spawnCloud_def updateParticles_def Let_def split: option.splits)

lemma lastTime_audioController:
  "g\<lparr>lastTime := t, audioController := a\<rparr> = g\<lparr>audioController := a, lastTime := t\<rparr>"
  by simp

lemma updateMotion_lastTime:
  "fst (updateMotion env (g\<lparr>lastTime := t\<rparr>)) = (fst (updateMotion env g))\<lparr>lastTime := t\<rparr>"
  "snd (updateMotion env (g\<lparr>lastTime := t\<rparr>)) = snd (updateMotion env g)"
  by (simp_all add: updateMotion_def Let_def split_beta lastTime_audioController
      lastTime_commutes)

lemma update_lastTime:
  "update dt env (g\<lparr>lastTime := t\<rparr>) = (update dt env g)\<lparr>lastTime := t\<rparr>"
  by (simp add: update_def Let_def split_beta updateMotion_lastTime lastTime_commutes)

lemma loop_update:
  "state g = PLAYING \<Longrightarrow> loop timestamp env g = (update dt env g)\<lparr>lastTime := timestamp\<rparr>"
  by (simp add: loop_PLAYING [of _ _ _ dt] update_lastTime)

lemma update_audioController:
  "state g = PLAYING \<Longrightarrow>
   audioController (update dt env g) = snd (getVolume (analyserBins env) (audioController g))"
  by (simp add: update_PLAYING check_keeps updateMotion_fst phase_keeps)

lemma update_highScore:
  assumes "state g = PLAYING"
  shows "highScore (update dt env g) =
           (if airplane_y (fst (updateMotion env g)) > height g - 150
               \<and> distance (fst (updateMotion env g)) > highScore g
            then distance (fst (updateMotion env g)) else highScore g)"
    and "paperWingsHighScore (update dt env g) =
           (if airplane_y (fst (updateMotion env g)) > height g - 150
               \<and> distance (fst (updateMotion env g)) > highScore g
            then Some (distance (fst (updateMotion env g))) else paperWingsHighScore g)"
  using assms
  by (simp_all add: update_PLAYING check_keeps boundsCheckingGround_sets updateMotion_keeps)

lemma metres_mono:
  "a \<le> b \<Longrightarrow> max 0 ((a - 100) / 50) \<le> max 0 ((b - 100) / 50)" for a b :: real
  by (simp add: max_def field_simps)

section \<open>The game at rest in a window of 800 by 600\<close>

lemma initialClouds_keeps:
  "audioController (initialClouds n rnd g) = audioController g"
  "state (initialClouds n rnd g) = state g"
  "width (initialClouds n rnd g) = width g"
  "height (initialClouds n rnd g) = height g"
  "highScore (initialClouds n rnd g) = highScore g"
  "paperWingsHighScore (initialClouds n rnd g) = paperWingsHighScore g"
  by (induction n rnd g rule: initialClouds.induct; simp add: spawnCloud_def Let_def)+

lemma newGame_fields:
  "audioController (newGame w h stored rnd) = newAudioController"
  "state (newGame w h stored rnd) = START"
  "width (newGame w h stored rnd) = w"
  "height (newGame w h stored rnd) = h"
  "highScore (newGame w h stored rnd) = (case stored of None \<Rightarrow> 0 | Some v \<Rightarrow> v)"
  "paperWingsHighScore (newGame w h stored rnd) = stored"
  by (simp_all add: newGame_def Let_def resize_def initialClouds_keeps)

lemma startGame_fields:
  "state (startGame now g) = PLAYING"
  "width (startGame now g) = width g"
  "height (startGame now g) = height g"
  "audioController (startGame now g) = audioController g"
  "airplane_x (startGame now g) = 100"
  "airplane_y (startGame now g) = height g - 150 - height g * 0.6"
  "airplane_velocity_x (startGame now g) = 0"
  "airplane_velocity_y (startGame now g) = 0"
  "camera_x (startGame now g) = 0"
  "distance (startGame now g) = 0"
  "hasStartedBlowing (startGame now g) = False"
  "highScore (startGame now g) = highScore g"
  "paperWingsHighScore (startGame now g) = paperWingsHighScore g"
  by (simp_all add: startGame_def resetPhysics_def Let_def)

lemma startBtnClick_granted:
  "startBtnClick True now g =
     startGame now (g\<lparr>audioController := snd (init True (audioController g))\<rparr>)"
  by (simp add: startBtnClick_def init_def)

lemma rest800x600_fields:
  "state rest800x600 = PLAYING"
  "width rest800x600 = 800"
  "height rest800x600 = 600"
  "airplane_x rest800x600 = 100"
  "airplane_y rest800x600 = 90"
  "airplane_velocity_x rest800x600 = 0"
  "airplane_velocity_y rest800x600 = 0"
  "camera_x rest800x600 = 0"
  "distance rest800x600 = 0"
  "hasStartedBlowing rest800x600 = False"
  "highScore rest800x600 = 0"
  "paperWingsHighScore rest800x600 = None"
  "isListening (audioController rest800x600)"
  "length (dataArray (audioController rest800x600)) = 128"
  by (simp_all add: rest800x600_def startBtnClick_granted startGame_fields newGame_fields
      sensor_shape)

text \<open>The wind force of a frame whose 128 bins all have the magnitude \<open>b\<close>.\<close>

lemma getVolume_steady:
  assumes "isListening ac" and "length (dataArray ac) = 128"
  shows "fst (getVolume (analyserBins (steadyFrame b)) ac) =
           Some (min (max ((real (unat b) - 10) / 50) 0) 1)"
    and "isListening (snd (getVolume (analyserBins (steadyFrame b)) ac))"
    and "length (dataArray (snd (getVolume (analyserBins (steadyFrame b)) ac))) = 128"
  using assms
  by (simp_all add: getVolume_def Let_def getByteFrequencyData_def steadyFrame_def
      frequencyBinCount_def fftSize_def foldl_plus_sum_list sum_list_replicate)

lemma wind_rest800x600:
  "fst (getVolume (analyserBins (steadyFrame 0)) (audioController rest800x600)) = Some 0"
  "fst (getVolume (analyserBins (steadyFrame 50)) (audioController rest800x600)) = Some (4 / 5)"
  by (simp_all add: getVolume_steady rest800x600_fields)

lemma blows_simps:
  "blows (Some 0) = False"
  "blows (Some (4 / 5)) = True"
  "blows (Some 1) = True"
  by (simp_all add: blows_def BLOW_THRESHOLD_def)

lemmas constants = GRAVITY_def LIFT_def DRAG_def BOOST_def GLIDE_LIFT_def

text \<open>The motion part of one step from rest, with wind force 0.8 and with none.\<close>

lemma motion_blow:
  "hasStartedBlowing (fst (updateMotion (steadyFrame 50) rest800x600))"
  "airplane_velocity_x (fst (updateMotion (steadyFrame 50) rest800x600)) = 0.9408"
  "airplane_velocity_y (fst (updateMotion (steadyFrame 50) rest800x600)) = 0.324184"
  "airplane_x (fst (updateMotion (steadyFrame 50) rest800x600)) = 100.9408"
  "airplane_y (fst (updateMotion (steadyFrame 50) rest800x600)) = 90.324184"
  by (simp_all add: updateMotion_fst phase_keeps phase_sets wind_rest800x600 blows_simps
      rest800x600_fields constants)

lemma motion_calm:
  "\<not> hasStartedBlowing (fst (updateMotion (steadyFrame 0) rest800x600))"
  "airplane_velocity_x (fst (updateMotion (steadyFrame 0) rest800x600)) = 0"
  "airplane_velocity_y (fst (updateMotion (steadyFrame 0) rest800x600)) = 0"
  "airplane_x (fst (updateMotion (steadyFrame 0) rest800x600)) = 100"
  "airplane_y (fst (updateMotion (steadyFrame 0) rest800x600)) = 90"
  by (simp_all add: updateMotion_fst phase_keeps phase_sets wind_rest800x600 blows_simps
      rest800x600_fields constants)

section \<open>The resting state\<close>

text \<open>
  A step of a resting game in which the wind does not pass the threshold: the game stays
  at rest with the velocity (0,0). The hold branch puts the airplane on the top of the
  stand, and the ceiling check, later in the same step, moves it down to the ceiling where
  the stand is higher than the ceiling (in every window lower than 750).
\<close>

lemma resting_step:
  assumes "state g = PLAYING" and "\<not> hasStartedBlowing g"
    and "\<not> blows (fst (getVolume (analyserBins env) (audioController g)))"
    and "0 \<le> height g"
  shows "state (update dt env g) = PLAYING"
    and "\<not> hasStartedBlowing (update dt env g)"
    and "airplane_velocity_x (update dt env g) = 0"
    and "airplane_velocity_y (update dt env g) = 0"
    and "airplane_x (update dt env g) = airplane_x g"
    and "airplane_y (update dt env g) = max (height g * 0.2) (height g - 150 - height g * 0.6)"
proof -
  have latch: "\<not> hasStartedBlowing (fst (updateMotion env g))"
    using assms(2,3) by (simp add: updateMotion_latch)
  note m = updateMotion_resting [OF latch]
  show "state (update dt env g) = PLAYING"
    and "airplane_velocity_y (update dt env g) = 0"
    and "airplane_y (update dt env g) = max (height g * 0.2) (height g - 150 - height g * 0.6)"
    using assms(1,4) by (simp_all add: update_checked_fields m max_def)
  show "\<not> hasStartedBlowing (update dt env g)"
    and "airplane_velocity_x (update dt env g) = 0"
    and "airplane_x (update dt env g) = airplane_x g"
    using assms(1) latch by (simp_all add: update_motion_fields m)
qed

text \<open>
  One step without wind on a resting game in a window of height 600: the game stays at
  rest, but the ceiling check moves the airplane from the top of the stand to the ceiling.
\<close>

lemma calm_step:
  assumes "state g = PLAYING" and "\<not> hasStartedBlowing g" and "height g = 600"
    and "airplane_x g = 100" and "isListening (audioController g)"
    and "length (dataArray (audioController g)) = 128"
  shows "state (update dt (steadyFrame 0) g) = PLAYING"
    and "\<not> hasStartedBlowing (update dt (steadyFrame 0) g)"
    and "height (update dt (steadyFrame 0) g) = 600"
    and "airplane_x (update dt (steadyFrame 0) g) = 100"
    and "isListening (audioController (update dt (steadyFrame 0) g))"
    and "length (dataArray (audioController (update dt (steadyFrame 0) g))) = 128"
    and "airplane_y (update dt (steadyFrame 0) g) = 120"
    and "airplane_velocity_x (update dt (steadyFrame 0) g) = 0"
    and "airplane_velocity_y (update dt (steadyFrame 0) g) = 0"
    and "distance (update dt (steadyFrame 0) g) = 0"
proof -
  let ?m = "fst (updateMotion (steadyFrame 0) g)"
  have wind: "fst (getVolume (analyserBins (steadyFrame 0)) (audioController g)) = Some 0"
    using assms by (simp add: getVolume_steady)
  have latch: "\<not> hasStartedBlowing ?m"
    using assms by (simp add: updateMotion_latch wind blows_simps)
  note m = updateMotion_resting [OF latch] updateMotion_distance [of "steadyFrame 0" g]
  show "state (update dt (steadyFrame 0) g) = PLAYING"
    and "airplane_y (update dt (steadyFrame 0) g) = 120"
    and "airplane_velocity_y (update dt (steadyFrame 0) g) = 0"
    using assms by (simp_all add: update_checked_fields m)
  show "\<not> hasStartedBlowing (update dt (steadyFrame 0) g)"
    and "airplane_x (update dt (steadyFrame 0) g) = 100"
    and "airplane_velocity_x (update dt (steadyFrame 0) g) = 0"
    and "distance (update dt (steadyFrame 0) g) = 0"
    using assms latch by (simp_all add: update_motion_fields m)
  show "height (update dt (steadyFrame 0) g) = 600"
    using assms by (simp add: update_keeps)
  show "isListening (audioController (update dt (steadyFrame 0) g))"
    and "length (dataArray (audioController (update dt (steadyFrame 0) g))) = 128"
    using assms by (simp_all add: update_audioController getVolume_steady)
qed

lemma calm_steps:
  "state ((update dt (steadyFrame 0) ^^ n) rest800x600) = PLAYING
   \<and> \<not> hasStartedBlowing ((update dt (steadyFrame 0) ^^ n) rest800x600)
   \<and> height ((update dt (steadyFrame 0) ^^ n) rest800x600) = 600
   \<and> airplane_x ((update dt (steadyFrame 0) ^^ n) rest800x600) = 100
   \<and> isListening (audioController ((update dt (steadyFrame 0) ^^ n) rest800x600))
   \<and> length (dataArray (audioController ((update dt (steadyFrame 0) ^^ n) rest800x600))) = 128"
proof (induction n)
  case 0
  show ?case by (simp add: rest800x600_fields)
next
  case (Suc n)
  then show ?case by (simp add: calm_step)
qed

lemma calm_steps_Suc:
  "airplane_y ((update dt (steadyFrame 0) ^^ Suc n) rest800x600) = 120"
  "airplane_velocity_x ((update dt (steadyFrame 0) ^^ Suc n) rest800x600) = 0"
  "airplane_velocity_y ((update dt (steadyFrame 0) ^^ Suc n) rest800x600) = 0"
  "distance ((update dt (steadyFrame 0) ^^ Suc n) rest800x600) = 0"
  using calm_steps [where dt = dt and n = n] by (simp_all add: calm_step)

text \<open>
  C1. In a window of 800 by 600 the stand height is \<open>600 - 150 - 0.6 * 600 = 90\<close>. The
  game at rest, stepped with wind force 0, keeps the velocity (0,0), the latch unset and
  the distance 0, after one frame and after 100 frames. Its airplane however ends every
  such step at \<open>y = 120\<close>, the ceiling \<open>0.2 * 600\<close>, and not at the stand height 90.
\<close>

theorem rest_800x600_clamped_to_ceiling:
  "height rest800x600 - 150 - 0.6 * height rest800x600 = 90
   \<and> airplane_y rest800x600 = 90
   \<and> fst (getVolume (analyserBins (steadyFrame 0)) (audioController rest800x600)) = Some 0
   \<and> airplane_y (update 1 (steadyFrame 0) rest800x600) = 120
   \<and> state ((update 1 (steadyFrame 0) ^^ 100) rest800x600) = PLAYING
   \<and> \<not> hasStartedBlowing ((update 1 (steadyFrame 0) ^^ 100) rest800x600)
   \<and> airplane_velocity_x ((update 1 (steadyFrame 0) ^^ 100) rest800x600) = 0
   \<and> airplane_velocity_y ((update 1 (steadyFrame 0) ^^ 100) rest800x600) = 0
   \<and> distance ((update 1 (steadyFrame 0) ^^ 100) rest800x600) = 0
   \<and> airplane_y ((update 1 (steadyFrame 0) ^^ 100) rest800x600) = 120"
proof -
  have one: "airplane_y (update 1 (steadyFrame 0) rest800x600) = 120"
    by (simp add: calm_step rest800x600_fields)
  have "(100::nat) = Suc 99" by simp
  then show ?thesis
    using calm_steps [where dt = 1 and n = 100] calm_steps_Suc [where dt = 1 and n = 99] one
    by (simp only: rest800x600_fields wind_rest800x600) simp
qed

section \<open>The first blow\<close>

lemma first_blow:
  "hasStartedBlowing (update dt (steadyFrame 50) rest800x600)"
  "airplane_velocity_x (update dt (steadyFrame 50) rest800x600) = 0.9408"
  "airplane_velocity_y (update dt (steadyFrame 50) rest800x600) = 0.162092"
  "airplane_y (update dt (steadyFrame 50) rest800x600) = 120"
  "state (update dt (steadyFrame 50) rest800x600) = PLAYING"
  by (simp_all add: update_motion_fields update_checked_fields rest800x600_fields motion_blow)

text \<open>
  C4, as stated, fails. From rest in a window of 800 by 600, one step with wind force 0.8
  sets the latch and makes the horizontal velocity positive, but the vertical velocity
  after the step is not smaller than before.
\<close>

theorem first_blow_counterexample:
  "\<not> (hasStartedBlowing (update 1 (steadyFrame 50) rest800x600)
      \<and> 0 < airplane_velocity_x (update 1 (steadyFrame 50) rest800x600)
      \<and> airplane_velocity_y (update 1 (steadyFrame 50) rest800x600)
          < airplane_velocity_y rest800x600)"
  by (simp add: first_blow rest800x600_fields)

text \<open>
  The motion part of a step with wind force 0.8 on a game at rest, in any window.
\<close>

lemma motion_first_blow:
  assumes "\<not> hasStartedBlowing g"
    and "airplane_velocity_x g = 0" and "airplane_velocity_y g = 0"
    and "fst (getVolume (analyserBins env) (audioController g)) = Some (4 / 5)"
  shows "hasStartedBlowing (fst (updateMotion env g))"
    and "airplane_velocity_x (fst (updateMotion env g)) = 0.9408"
    and "airplane_velocity_y (fst (updateMotion env g)) = 0.324184"
  using assms
  by (simp_all add: updateMotion_fst phase_keeps phase_sets blows_simps constants)

text \<open>
  C4, amended. From the resting state (velocity (0,0), latch unset), in a window of 800
  by 600 as in any other, one step with wind force 0.8 sets the latch and makes the
  horizontal velocity strictly positive. The blow itself lowers the vertical velocity, by
  \<open>0.8 * LIFT\<close>, but the same step then adds the gravity 0.75, so that the vertical
  velocity after the step is strictly greater than before (positive, downward).
\<close>

theorem first_blow_from_rest:
  assumes "state g = PLAYING" and "\<not> hasStartedBlowing g"
    and "airplane_velocity_x g = 0" and "airplane_velocity_y g = 0"
    and "fst (getVolume (analyserBins env) (audioController g)) = Some (4 / 5)"
  shows "hasStartedBlowing (update dt env g)
       \<and> 0 < airplane_velocity_x (update dt env g)
       \<and> airplane_velocity_y (fst (applyForces (Some (4 / 5)) rnd g))
           = airplane_velocity_y g - 4 / 5 * LIFT
       \<and> airplane_velocity_y (fst (applyForces (Some (4 / 5)) rnd g)) < airplane_velocity_y g
       \<and> airplane_velocity_y g < airplane_velocity_y (update dt env g)"
proof -
  note m = motion_first_blow [OF assms(2-5)]
  have "hasStartedBlowing (update dt env g)" "0 < airplane_velocity_x (update dt env g)"
    using assms(1) by (simp_all add: update_motion_fields m)
  moreover have "airplane_velocity_y g < airplane_velocity_y (update dt env g)"
    using assms(1,4) by (simp add: update_checked_fields m)
  moreover have "airplane_velocity_y (fst (applyForces (Some (4 / 5)) rnd g))
      = airplane_velocity_y g - 4 / 5 * LIFT"
    by (simp add: applyForces_sets blows_simps)
  ultimately show ?thesis
    by (simp add: LIFT_def)
qed

theorem first_blow_from_rest_witness:
  "state rest800x600 = PLAYING
   \<and> \<not> hasStartedBlowing rest800x600
   \<and> airplane_velocity_x rest800x600 = 0 \<and> airplane_velocity_y rest800x600 = 0
   \<and> width rest800x600 = 800 \<and> height rest800x600 = 600
   \<and> fst (getVolume (analyserBins (steadyFrame 50)) (audioController rest800x600)) = Some (4 / 5)
   \<and> hasStartedBlowing (update 1 (steadyFrame 50) rest800x600)
   \<and> 0 < airplane_velocity_x (update 1 (steadyFrame 50) rest800x600)
   \<and> 0 < airplane_velocity_y (update 1 (steadyFrame 50) rest800x600)"
  using first_blow_from_rest [of rest800x600 "steadyFrame 50" 1 "random (steadyFrame 50)"]
  by (simp add: rest800x600_fields wind_rest800x600)

section \<open>Ground and ceiling\<close>

text \<open>
  C3. In a step of a game that is \<open>PLAYING\<close>, let \<open>y\<close> be the airplane's height when
  the two checks are reached (after the position update). The step ends in \<open>END\<close>
  exactly when \<open>y > height - 150\<close>. The ceiling check changes the game exactly when
  \<open>y < 0.2 * height\<close>: it then sets \<open>y\<close> to \<open>0.2 * height\<close> and halves the vertical
  velocity, and it never changes the lifecycle state.
\<close>

theorem bounds_checks:
  assumes "state g = PLAYING"
  shows "(state (update dt env g) = END \<longleftrightarrow>
            airplane_y (fst (updateMotion env g)) > height g - 150)
       \<and> ceilingCheck (boundsCheckingGround (fst (updateMotion env g))) =
           (if airplane_y (fst (updateMotion env g)) < height g * 0.2
            then (boundsCheckingGround (fst (updateMotion env g)))
                   \<lparr>airplane_y := height g * 0.2,
                    airplane_velocity_y := airplane_velocity_y (fst (updateMotion env g)) * 0.5\<rparr>
            else boundsCheckingGround (fst (updateMotion env g)))
       \<and> state (ceilingCheck (boundsCheckingGround (fst (updateMotion env g)))) =
           state (boundsCheckingGround (fst (updateMotion env g)))
       \<and> airplane_y (update dt env g) =
           (if airplane_y (fst (updateMotion env g)) < height g * 0.2 then height g * 0.2
            else airplane_y (fst (updateMotion env g)))
       \<and> airplane_velocity_y (update dt env g) =
           (if airplane_y (fst (updateMotion env g)) < height g * 0.2
            then airplane_velocity_y (fst (updateMotion env g)) * 0.5
            else airplane_velocity_y (fst (updateMotion env g)))"
proof -
  let ?m = "fst (updateMotion env g)"
  have "state (update dt env g) = END \<longleftrightarrow> airplane_y ?m > height g - 150"
    using assms by (simp add: update_checked_fields)
  moreover have "ceilingCheck (boundsCheckingGround ?m) =
           (if airplane_y ?m < height g * 0.2
            then (boundsCheckingGround ?m)
                   \<lparr>airplane_y := height g * 0.2,
                    airplane_velocity_y := airplane_velocity_y ?m * 0.5\<rparr>
            else boundsCheckingGround ?m)"
    by (simp add: ceilingCheck_def Let_def boundsCheckingGround_keeps updateMotion_keeps)
  moreover have "state (ceilingCheck (boundsCheckingGround ?m)) = state (boundsCheckingGround ?m)"
    by (simp add: ceilingCheck_keeps)
  ultimately show ?thesis
    using assms by (simp add: update_checked_fields)
qed

theorem bounds_checks_witness:
  "state rest800x600 = PLAYING
   \<and> airplane_y (fst (updateMotion (steadyFrame 50) rest800x600)) = 90.324184
   \<and> state (update 1 (steadyFrame 50) rest800x600) \<noteq> END
   \<and> airplane_y (update 1 (steadyFrame 50) rest800x600) = 120
   \<and> airplane_velocity_y (update 1 (steadyFrame 50) rest800x600) = 0.324184 * 0.5"
  using bounds_checks [of rest800x600 1 "steadyFrame 50"]
  by (simp add: rest800x600_fields motion_blow)

section \<open>Distance\<close>

text \<open>
  C6. After every step of a game that is \<open>PLAYING\<close>, the distance is
  \<open>max 0 ((airplane_x - 100) / 50)\<close>. So it is never negative, and of two such steps the
  one that ends with the greater \<open>airplane_x\<close> ends with the greater distance.
\<close>

theorem distance_from_x:
  assumes "state g = PLAYING" and "state g' = PLAYING"
  shows "distance (update dt env g) = max 0 ((airplane_x (update dt env g) - 100) / 50)
       \<and> 0 \<le> distance (update dt env g)
       \<and> (airplane_x (update dt env g) \<le> airplane_x (update dt' env' g') \<longrightarrow>
            distance (update dt env g) \<le> distance (update dt' env' g'))"
proof -
  have d: "distance (update dt env g) = max 0 ((airplane_x (update dt env g) - 100) / 50)"
    if "state g = PLAYING" for dt env g
    using that by (simp add: update_motion_fields updateMotion_distance)
  show ?thesis
  proof (intro conjI impI)
    show "distance (update dt env g) = max 0 ((airplane_x (update dt env g) - 100) / 50)"
      using assms(1) by (rule d)
    show "0 \<le> distance (update dt env g)"
      by (subst d [OF assms(1)]) simp
    assume "airplane_x (update dt env g) \<le> airplane_x (update dt' env' g')"
    then show "distance (update dt env g) \<le> distance (update dt' env' g')"
      by (simp only: d [OF assms(1)] d [OF assms(2)] metres_mono)
  qed
qed

theorem distance_from_x_witness:
  "state rest800x600 = PLAYING
   \<and> airplane_x (update 1 (steadyFrame 0) rest800x600) = 100
   \<and> airplane_x (update 1 (steadyFrame 50) rest800x600) = 100.9408
   \<and> distance (update 1 (steadyFrame 0) rest800x600) = 0
   \<and> distance (update 1 (steadyFrame 50) rest800x600) = 0.018816"
  using distance_from_x [of rest800x600 rest800x600 1 "steadyFrame 0" 1 "steadyFrame 50"]
    distance_from_x [of rest800x600 rest800x600 1 "steadyFrame 50" 1 "steadyFrame 50"]
  by (simp add: rest800x600_fields update_motion_fields motion_blow motion_calm)

section \<open>The latch\<close>

text \<open>
  C7. Once \<open>hasStartedBlowing\<close> is true, a step (\<open>update\<close>, and \<open>loop\<close> that calls it)
  leaves it true, and so do a resize and the end of the round. \<open>resetPhysics\<close> sets it to
  false, and with it \<open>resetGame\<close> and \<open>startGame\<close>, which call \<open>resetPhysics\<close>.
\<close>

theorem latch_monotone:
  "(hasStartedBlowing g \<longrightarrow>
      hasStartedBlowing (update dt env g) \<and> hasStartedBlowing (loop timestamp env g)
      \<and> hasStartedBlowing (resize innerWidth innerHeight g) \<and> hasStartedBlowing (endGame g))
   \<and> \<not> hasStartedBlowing (resetPhysics g)
   \<and> \<not> hasStartedBlowing (resetGame g)
   \<and> \<not> hasStartedBlowing (startGame now g)"
proof -
  have u: "hasStartedBlowing (update dt env g)" if "hasStartedBlowing g" for dt env g
    using that
    by (cases "state g = PLAYING")
      (simp_all add: update_not_PLAYING update_motion_fields updateMotion_latch)
  have "hasStartedBlowing (loop timestamp env g)" if "hasStartedBlowing g"
    using that u [of "g\<lparr>lastTime := timestamp\<rparr>" 0 env]
    by (cases "state g = PLAYING") (simp_all add: loop_not_PLAYING loop_PLAYING [of _ _ _ 0])
  with u show ?thesis
    by (simp add: resize_keeps endGame_keeps resetPhysics_sets resetGame_def startGame_def Let_def)
qed

theorem latch_monotone_witness:
  "hasStartedBlowing (update 1 (steadyFrame 50) rest800x600)
   \<and> hasStartedBlowing (update 1 (steadyFrame 0) (update 1 (steadyFrame 50) rest800x600))
   \<and> \<not> hasStartedBlowing (resetPhysics (update 1 (steadyFrame 50) rest800x600))"
  using latch_monotone [of "update 1 (steadyFrame 50) rest800x600" 1 "steadyFrame 0"]
  by (simp add: first_blow)

section \<open>Outside of PLAYING\<close>

text \<open>
  C8. While the state is not \<open>PLAYING\<close> (so also after a crash has set it to \<open>END\<close>),
  \<open>update\<close> and \<open>loop\<close> return the game as it is: airplane, camera, clouds, particles
  and distance are unchanged, for one frame and for any sequence of frames.
\<close>

theorem frozen_outside_PLAYING:
  assumes "state g \<noteq> PLAYING"
  shows "update dt env g = g \<and> loop timestamp env g = g
       \<and> run (map (\<lambda>(t, e). AnimationFrame t e) frames) g = g"
proof -
  have "run (map (\<lambda>(t, e). AnimationFrame t e) frames) g = g"
    using assms by (induction frames) (simp_all add: loop_not_PLAYING split_beta)
  with assms show ?thesis
    by (simp add: update_not_PLAYING loop_not_PLAYING)
qed

theorem frozen_outside_PLAYING_witness:
  "state (endGame rest800x600) \<noteq> PLAYING
   \<and> update 1 (steadyFrame 50) (endGame rest800x600) = endGame rest800x600
   \<and> loop 16 (steadyFrame 50) (endGame rest800x600) = endGame rest800x600
   \<and> run [AnimationFrame 16 (steadyFrame 50), AnimationFrame 32 (steadyFrame 0)]
        (endGame rest800x600) = endGame rest800x600"
  using frozen_outside_PLAYING [of "endGame rest800x600" 1 "steadyFrame 50" 16
      "[(16, steadyFrame 50), (32, steadyFrame 0)]"]
  by (auto simp add: endGame_sets)

section \<open>The elapsed time\<close>

text \<open>
  C10. The result of \<open>update\<close> does not depend on its argument \<open>dt\<close>: for every game
  and every frame input, two values of \<open>dt\<close> give the same game. Hence two calls of
  \<open>loop\<close> with different timestamps give games that differ in \<open>lastTime\<close> at most.
\<close>

theorem update_ignores_dt:
  "update dt1 env g = update dt2 env g
   \<and> loop timestamp1 env g =
       (loop timestamp2 env g)\<lparr>lastTime := lastTime (loop timestamp1 env g)\<rparr>"
proof (cases "state g = PLAYING")
  case True
  then show ?thesis
    by (simp add: loop_def Let_def update_lastTime) (simp add: update_def)
next
  case False
  then show ?thesis
    by (simp add: loop_def update_def)
qed

section \<open>The high score\<close>

lemma handle_highScore:
  "highScore g \<le> highScore (handle e g)"
  "highScore g = persisted g \<Longrightarrow>
     highScore (handle e g) = persisted (handle e g) \<and> persisted g \<le> persisted (handle e g)"
proof -
  have u: "highScore g \<le> highScore (update dt env g)
      \<and> (highScore g = persisted g \<longrightarrow>
           highScore (update dt env g) = persisted (update dt env g))" for dt env g
    by (cases "state g = PLAYING")
      (simp_all add: update_not_PLAYING update_highScore persisted_def)
  have l: "highScore g \<le> highScore (loop timestamp env g)
      \<and> (highScore g = persisted g \<longrightarrow>
           highScore (loop timestamp env g) = persisted (loop timestamp env g))"
    for timestamp env g
    using u [of "g\<lparr>lastTime := timestamp\<rparr>" 0 env]
    by (cases "state g = PLAYING")
      (simp_all add: loop_not_PLAYING loop_PLAYING [of _ _ _ 0] persisted_def)
  have h: "highScore g \<le> highScore (handle e g)
      \<and> (highScore g = persisted g \<longrightarrow> highScore (handle e g) = persisted (handle e g))"
  proof (cases e)
    case (StartBtn granted now)
    then show ?thesis
      by (simp add: startBtnClick_def init_def startGame_fields persisted_def)
  next
    case (RestartBtn now)
    then show ?thesis
      by (simp add: restartBtnClick_def resetGame_def startGame_fields resetPhysics_keeps
          persisted_def)
  next
    case (WindowResize innerWidth innerHeight)
    then show ?thesis
      by (simp add: resize_keeps persisted_def)
  next
    case (AnimationFrame timestamp env)
    then show ?thesis
      using l [of g timestamp env] by simp
  qed
  from h show "highScore g \<le> highScore (handle e g)"
    by simp
  from h show "highScore (handle e g) = persisted (handle e g)
      \<and> persisted g \<le> persisted (handle e g)" if "highScore g = persisted g"
    using that by auto
qed

lemma run_highScore:
  "highScore g \<le> highScore (run es g)"
  "highScore g = persisted g \<Longrightarrow>
     highScore (run es g) = persisted (run es g) \<and> persisted g \<le> persisted (run es g)"
proof -
  show "highScore g \<le> highScore (run es g)"
  proof (induction es arbitrary: g)
    case Nil
    show ?case by simp
  next
    case (Cons e es)
    from handle_highScore(1) [of g e] Cons [of "handle e g"] show ?case
      by simp
  qed
  show "highScore (run es g) = persisted (run es g) \<and> persisted g \<le> persisted (run es g)"
    if "highScore g = persisted g"
    using that
  proof (induction es arbitrary: g)
    case Nil
    then show ?case by simp
  next
    case (Cons e es)
    from handle_highScore(2) [OF Cons.prems, of e] Cons.IH [of "handle e g"] show ?case
      by simp
  qed
qed

text \<open>
  C5. \<open>endGame\<close> replaces the high score, in the game and in the store, by the distance
  of the run if that distance is strictly greater than the high score, and leaves both as
  they are otherwise. A game is constructed with its high score equal to the stored one;
  from then on, over every sequence of events (frames, resizes, starts and restarts, so
  over any number of runs), the high score and the stored value never decrease, and the
  stored value changes at the end of a round exactly when the distance exceeded it.
\<close>

theorem highScore_monotone:
  "highScore (endGame g) = (if highScore g < distance g then distance g else highScore g)
   \<and> paperWingsHighScore (endGame g) =
       (if highScore g < distance g then Some (distance g) else paperWingsHighScore g)
   \<and> highScore g \<le> highScore (run es g)
   \<and> highScore (newGame innerWidth innerHeight stored rnd) =
       persisted (newGame innerWidth innerHeight stored rnd)
   \<and> (highScore g = persisted g \<longrightarrow>
        persisted g \<le> persisted (run es g)
        \<and> (paperWingsHighScore (endGame g) \<noteq> paperWingsHighScore g \<longleftrightarrow>
             highScore g < distance g))"
proof -
  have "paperWingsHighScore (endGame g) \<noteq> paperWingsHighScore g \<longleftrightarrow> highScore g < distance g"
    if "highScore g = persisted g"
    using that by (auto simp add: endGame_sets persisted_def split: option.splits)
  then show ?thesis
    using run_highScore [of g es]
    by (simp add: endGame_sets newGame_fields persisted_def)
qed

theorem highScore_monotone_witness:
  "highScore ((startGame 0 (newGame 800 600 (Some 0) (sconst (1 / 2))))\<lparr>distance := 42.3\<rparr>) =
     persisted ((startGame 0 (newGame 800 600 (Some 0) (sconst (1 / 2))))\<lparr>distance := 42.3\<rparr>)
   \<and> paperWingsHighScore ((startGame 0 (newGame 800 600 (Some 0) (sconst (1 / 2))))
         \<lparr>distance := 42.3\<rparr>) = Some 0
   \<and> highScore (endGame ((startGame 0 (newGame 800 600 (Some 0) (sconst (1 / 2))))
         \<lparr>distance := 42.3\<rparr>)) = 42.3
   \<and> paperWingsHighScore (endGame ((startGame 0 (newGame 800 600 (Some 0) (sconst (1 / 2))))
         \<lparr>distance := 42.3\<rparr>)) = Some 42.3"
  using highScore_monotone
    [of "(startGame 0 (newGame 800 600 (Some 0) (sconst (1 / 2))))\<lparr>distance := 42.3\<rparr>" "[]"]
  by (simp add: startGame_fields newGame_fields persisted_def)

section \<open>Within a run\<close>

lemma blows_positive: "blows w \<Longrightarrow> 0 < the w"
  by (cases w) (simp_all add: blows_def BLOW_THRESHOLD_def)

lemma updateMotion_velocity_x_nonneg:
  assumes "0 \<le> airplane_velocity_x g"
  shows "0 \<le> airplane_velocity_x (fst (updateMotion env g))"
proof -
  have d: "0 \<le> DRAG"
    by (simp add: DRAG_def)
  have "0 \<le> airplane_velocity_x g + the w * BOOST" if "blows w" for w
    using assms blows_positive [OF that] by (simp add: BOOST_def)
  then have "0 \<le> (airplane_velocity_x g + the w * BOOST) * DRAG" if "blows w" for w
    using that d by (simp only: mult_nonneg_nonneg)
  moreover have "0 \<le> airplane_velocity_x g * DRAG"
    using assms d by (simp only: mult_nonneg_nonneg)
  ultimately show ?thesis
    by (simp only: updateMotion_velocity_x) simp
qed

text \<open>
  One frame, on a game whose horizontal velocity is not negative and whose distance is the
  one of its \<open>airplane_x\<close>: both hold again afterwards, and \<open>airplane_x\<close> and the
  distance have not decreased. If moreover the camera is not ahead of its target, it has
  not decreased either and is at its target.
\<close>

lemma loop_forward:
  assumes "0 \<le> airplane_velocity_x g"
    and "distance g = max 0 ((airplane_x g - 100) / 50)"
  shows "0 \<le> airplane_velocity_x (loop timestamp env g)"
    and "distance (loop timestamp env g) = max 0 ((airplane_x (loop timestamp env g) - 100) / 50)"
    and "airplane_x g \<le> airplane_x (loop timestamp env g)"
    and "distance g \<le> distance (loop timestamp env g)"
    and "width (loop timestamp env g) = width g"
    and "camera_x g \<le> max 0 (airplane_x g - width g * 0.3) \<Longrightarrow>
         camera_x g \<le> camera_x (loop timestamp env g)
         \<and> camera_x (loop timestamp env g)
             \<le> max 0 (airplane_x (loop timestamp env g) - width g * 0.3)"
proof -
  let ?g = "g\<lparr>lastTime := timestamp\<rparr>"
  let ?m = "fst (updateMotion env ?g)"
  have v: "0 \<le> airplane_velocity_x ?m"
    using assms(1) by (simp add: updateMotion_velocity_x_nonneg)
  have x: "airplane_x g \<le> airplane_x ?m"
    using v updateMotion_x [of env ?g] by simp
  show "0 \<le> airplane_velocity_x (loop timestamp env g)"
    using assms(1) v
    by (cases "state g = PLAYING")
      (simp_all add: loop_not_PLAYING loop_PLAYING [of _ _ _ 0] update_motion_fields)
  show "distance (loop timestamp env g) = max 0 ((airplane_x (loop timestamp env g) - 100) / 50)"
    using assms(2) updateMotion_distance [of env ?g]
    by (cases "state g = PLAYING")
      (simp_all add: loop_not_PLAYING loop_PLAYING [of _ _ _ 0] update_motion_fields)
  show "airplane_x g \<le> airplane_x (loop timestamp env g)"
    using x
    by (cases "state g = PLAYING")
      (simp_all add: loop_not_PLAYING loop_PLAYING [of _ _ _ 0] update_motion_fields)
  show "distance g \<le> distance (loop timestamp env g)"
    using metres_mono [OF x] assms(2) updateMotion_distance [of env ?g]
    by (cases "state g = PLAYING")
      (simp_all add: loop_not_PLAYING loop_PLAYING [of _ _ _ 0] update_motion_fields)
  show "width (loop timestamp env g) = width g"
    by (cases "state g = PLAYING")
      (simp_all add: loop_not_PLAYING loop_PLAYING [of _ _ _ 0] update_keeps)
  show "camera_x g \<le> camera_x (loop timestamp env g)
         \<and> camera_x (loop timestamp env g)
             \<le> max 0 (airplane_x (loop timestamp env g) - width g * 0.3)"
    if "camera_x g \<le> max 0 (airplane_x g - width g * 0.3)"
  proof (cases "state g = PLAYING")
    case True
    have "max 0 (airplane_x g - width g * 0.3) \<le> max 0 (airplane_x ?m - width g * 0.3)"
      using x by (simp add: max_def)
    with that True updateMotion_camera [of env ?g] show ?thesis
      by (simp add: loop_PLAYING [of _ _ _ 0] update_motion_fields)
  next
    case False
    with that show ?thesis
      by (simp add: loop_not_PLAYING)
  qed
qed

lemma run_forward:
  assumes "\<forall>e\<in>set es. withinRun e"
    and "0 \<le> airplane_velocity_x g"
    and "distance g = max 0 ((airplane_x g - 100) / 50)"
  shows "0 \<le> airplane_velocity_x (run es g)
       \<and> distance (run es g) = max 0 ((airplane_x (run es g) - 100) / 50)"
  using assms
proof (induction es arbitrary: g)
  case Nil
  then show ?case by simp
next
  case (Cons e es)
  from Cons.prems(1) have "withinRun e" by simp
  then have "0 \<le> airplane_velocity_x (handle e g)
      \<and> distance (handle e g) = max 0 ((airplane_x (handle e g) - 100) / 50)"
    using Cons.prems(2,3)
    by (cases e) (simp_all add: resize_keeps loop_forward)
  with Cons.IH [of "handle e g"] Cons.prems(1) show ?case
    by simp
qed

lemma run_camera:
  assumes "\<forall>e\<in>set es. isFrame e"
    and "0 \<le> airplane_velocity_x g"
    and "distance g = max 0 ((airplane_x g - 100) / 50)"
    and "camera_x g \<le> max 0 (airplane_x g - width g * 0.3)"
  shows "camera_x (run es g) \<le> max 0 (airplane_x (run es g) - width (run es g) * 0.3)"
  using assms
proof (induction es arbitrary: g)
  case Nil
  then show ?case by simp
next
  case (Cons e es)
  from Cons.prems(1) obtain timestamp env where e: "e = AnimationFrame timestamp env"
    by (cases e) simp_all
  note f = loop_forward [OF Cons.prems(2,3), of timestamp env]
  from f(6) [OF Cons.prems(4)] f(5)
  have "camera_x (loop timestamp env g)
      \<le> max 0 (airplane_x (loop timestamp env g) - width (loop timestamp env g) * 0.3)"
    by simp
  with Cons.IH [of "loop timestamp env g"] Cons.prems(1) f(1,2) e show ?case
    by simp
qed

text \<open>
  A game in a window of 300 by 800, started and blown once at full force (every bin at 60
  gives the wind force 1).
\<close>

lemma wind_full:
  assumes "isListening ac" and "length (dataArray ac) = 128"
  shows "fst (getVolume (analyserBins (steadyFrame 60)) ac) = Some 1"
    and "fst (getVolume (analyserBins (steadyFrame 0)) ac) = Some 0"
  using assms by (simp_all add: getVolume_steady)

lemma narrowBlown_eq:
  "narrowBlown =
     (update 0 (steadyFrame 60)
       (startGame 0 ((newGame 300 800 None (sconst (1 / 2)))
           \<lparr>audioController := snd (init True newAudioController)\<rparr>)))\<lparr>lastTime := 16\<rparr>"
  by (simp add: narrowBlown_def startBtnClick_granted newGame_fields
      loop_update [of _ _ _ 0] startGame_fields)

lemma narrowBlown_fields:
  "state narrowBlown = PLAYING"
  "width narrowBlown = 300"
  "height narrowBlown = 800"
  "hasStartedBlowing narrowBlown"
  "airplane_x narrowBlown = 101.176"
  "airplane_y narrowBlown = 170.22148"
  "airplane_velocity_x narrowBlown = 1.176"
  "airplane_velocity_y narrowBlown = 0.22148"
  "camera_x narrowBlown = 11.176"
  "isListening (audioController narrowBlown)"
  "length (dataArray (audioController narrowBlown)) = 128"
proof -
  let ?s = "startGame 0 ((newGame 300 800 None (sconst (1 / 2)))
           \<lparr>audioController := snd (init True newAudioController)\<rparr>)"
  have s: "state ?s = PLAYING" "width ?s = 300" "height ?s = 800" "\<not> hasStartedBlowing ?s"
    "airplane_x ?s = 100" "airplane_y ?s = 170" "airplane_velocity_x ?s = 0"
    "airplane_velocity_y ?s = 0" "isListening (audioController ?s)"
    "length (dataArray (audioController ?s)) = 128"
    by (simp_all add: startGame_fields newGame_fields sensor_shape)
  have w: "fst (getVolume (analyserBins (steadyFrame 60)) (audioController ?s)) = Some 1"
    using s(9,10) by (rule wind_full)
  have m: "hasStartedBlowing (fst (updateMotion (steadyFrame 60) ?s))"
    "airplane_velocity_x (fst (updateMotion (steadyFrame 60) ?s)) = 1.176"
    "airplane_velocity_y (fst (updateMotion (steadyFrame 60) ?s)) = 0.22148"
    "airplane_x (fst (updateMotion (steadyFrame 60) ?s)) = 101.176"
    "airplane_y (fst (updateMotion (steadyFrame 60) ?s)) = 170.22148"
    "camera_x (fst (updateMotion (steadyFrame 60) ?s)) = 11.176"
    by (simp_all add: updateMotion_fst phase_keeps phase_sets w blows_simps s constants)
  show "state narrowBlown = PLAYING" "airplane_y narrowBlown = 170.22148"
    "airplane_velocity_y narrowBlown = 0.22148"
    by (simp_all add: narrowBlown_eq update_checked_fields [OF s(1)] s m)
  show "hasStartedBlowing narrowBlown" "airplane_x narrowBlown = 101.176"
    "airplane_velocity_x narrowBlown = 1.176" "camera_x narrowBlown = 11.176"
    by (simp_all add: narrowBlown_eq update_motion_fields [OF s(1)] m)
  show "width narrowBlown = 300" "height narrowBlown = 800"
    by (simp_all add: narrowBlown_eq update_keeps s)
  show "isListening (audioController narrowBlown)"
    "length (dataArray (audioController narrowBlown)) = 128"
    by (simp_all add: narrowBlown_eq update_audioController [OF s(1)] s getVolume_steady)
qed

text \<open>The next frame, without wind, in a window of the width \<open>w\<close>.\<close>

lemma narrowBlown_next:
  "state (loop 32 (steadyFrame 0) (resize w 800 narrowBlown)) = PLAYING"
  "airplane_x (loop 32 (steadyFrame 0) (resize w 800 narrowBlown)) = 102.32848"
  "camera_x (loop 32 (steadyFrame 0) (resize w 800 narrowBlown)) = max 0 (102.32848 - w * 0.3)"
proof -
  let ?r = "resize w 800 narrowBlown"
  have r: "state ?r = PLAYING" "width ?r = w" "height ?r = 800" "hasStartedBlowing ?r"
    "airplane_x ?r = 101.176" "airplane_y ?r = 170.22148" "airplane_velocity_x ?r = 1.176"
    "airplane_velocity_y ?r = 0.22148" "isListening (audioController ?r)"
    "length (dataArray (audioController ?r)) = 128"
    by (simp_all add: resize_keeps narrowBlown_fields) (simp_all add: resize_def)
  have w: "fst (getVolume (analyserBins (steadyFrame 0)) (audioController ?r)) = Some 0"
    using r(9,10) by (rule wind_full)
  have m: "airplane_x (fst (updateMotion (steadyFrame 0) ?r)) = 102.32848"
    "airplane_y (fst (updateMotion (steadyFrame 0) ?r)) = 171.1504808"
    "camera_x (fst (updateMotion (steadyFrame 0) ?r)) = max 0 (102.32848 - w * 0.3)"
    by (simp_all add: updateMotion_fst phase_keeps phase_sets w blows_simps r constants)
  have l: "loop 32 (steadyFrame 0) ?r = (update 0 (steadyFrame 0) ?r)\<lparr>lastTime := 32\<rparr>"
    using r(1) by (rule loop_update)
  show "state (loop 32 (steadyFrame 0) (resize w 800 narrowBlown)) = PLAYING"
    by (simp add: l update_checked_fields [OF r(1)] m r)
  show "airplane_x (loop 32 (steadyFrame 0) (resize w 800 narrowBlown)) = 102.32848"
    "camera_x (loop 32 (steadyFrame 0) (resize w 800 narrowBlown)) = max 0 (102.32848 - w * 0.3)"
    by (simp_all add: l update_motion_fields [OF r(1)] m)
qed

lemma loop_camera:
  assumes "state g = PLAYING"
  shows "camera_x (loop timestamp env g) =
           max 0 (airplane_x (loop timestamp env g) - width (loop timestamp env g) * 0.3)"
  using assms updateMotion_camera [of env g]
  by (simp add: loop_update [of _ _ _ 0] update_motion_fields update_keeps)

lemma loop_width: "width (loop timestamp env g) = width g"
  by (cases "state g = PLAYING")
    (simp_all add: loop_not_PLAYING loop_update [of _ _ _ 0] update_keeps)

text \<open>
  Two frames with a resize between them that does not widen the window: the second frame
  ends with the camera not behind where the first frame left it.
\<close>

lemma frame_resize_frame:
  assumes "0 \<le> airplane_velocity_x g"
    and "distance g = max 0 ((airplane_x g - 100) / 50)"
    and "w \<le> width (loop timestamp env g)"
  shows "camera_x (loop timestamp env g)
           \<le> camera_x (loop timestamp' env' (resize w h (loop timestamp env g)))"
proof (cases "state g = PLAYING")
  case True
  let ?a = "loop timestamp env g"
  let ?b = "resize w h ?a"
  note f = loop_forward [OF assms(1,2), of timestamp env]
  have inv: "0 \<le> airplane_velocity_x ?b" "distance ?b = max 0 ((airplane_x ?b - 100) / 50)"
    using f(1,2) by (simp_all add: resize_keeps)
  have "camera_x ?a = max 0 (airplane_x ?a - width ?a * 0.3)"
    using True by (rule loop_camera)
  also have "\<dots> \<le> max 0 (airplane_x ?a - w * 0.3)"
    using assms(3) by (simp add: max_def)
  finally have "camera_x ?b \<le> max 0 (airplane_x ?b - width ?b * 0.3)"
    by (simp add: resize_keeps) (simp add: resize_def)
  from loop_forward(6) [OF inv this, of timestamp' env'] show ?thesis
    by (simp add: resize_keeps)
next
  case False
  then have "state (resize w h (loop timestamp env g)) \<noteq> PLAYING"
    by (simp add: loop_not_PLAYING resize_keeps)
  then show ?thesis
    using False by (simp add: loop_not_PLAYING resize_keeps)
qed

lemma resize_same: "resize (width g) (height g) g = g"
  by (simp add: resize_def)

text \<open>
  C9, as stated, fails for the camera. A game in a window of 300 by 800 is started and
  blown once at full force; the camera is then at 11.176. The window is widened to 400
  and the next frame, in the same run, puts the camera back at 0.
\<close>

theorem camera_counterexample:
  "state narrowBlown = PLAYING
   \<and> state (run [WindowResize 400 800, AnimationFrame 32 (steadyFrame 0)] narrowBlown) = PLAYING
   \<and> \<not> camera_x narrowBlown
        \<le> camera_x (run [WindowResize 400 800, AnimationFrame 32 (steadyFrame 0)] narrowBlown)"
  by (simp add: narrowBlown_fields narrowBlown_next)

text \<open>
  C9, amended. A run begins with \<open>startGame\<close> and goes on with frames and resizes. At
  every point \<open>r\<close> of a run the horizontal velocity is not negative, and the next frame,
  which ends in \<open>a\<close>, does not decrease the airplane's \<open>x\<close> nor the distance. A frame
  of a game that is \<open>PLAYING\<close> leaves the camera at \<open>max 0 (x - 0.3 * width)\<close>. So the
  frame after \<open>a\<close> does not decrease the camera's \<open>x\<close> when the window is not resized
  between the two frames, or is resized to a width that is not greater. Nor does a frame
  decrease the camera's \<open>x\<close> in a run without any resize so far.
\<close>

theorem run_moves_forward:
  assumes "\<forall>e\<in>set es. withinRun e"
    and "r = run es (startGame now g)"
    and "a = loop timestamp env r"
  shows "0 \<le> airplane_velocity_x r \<and> 0 \<le> airplane_velocity_x a
       \<and> airplane_x r \<le> airplane_x a
       \<and> distance r \<le> distance a
       \<and> (state r = PLAYING \<longrightarrow> camera_x a = max 0 (airplane_x a - width a * 0.3))
       \<and> camera_x a \<le> camera_x (loop timestamp' env' a)
       \<and> (w \<le> width a \<longrightarrow> camera_x a \<le> camera_x (loop timestamp' env' (resize w h a)))
       \<and> ((\<forall>e\<in>set es. isFrame e) \<longrightarrow> camera_x r \<le> camera_x a)"
proof -
  let ?s = "startGame now g"
  have s: "0 \<le> airplane_velocity_x ?s" "distance ?s = max 0 ((airplane_x ?s - 100) / 50)"
    "camera_x ?s \<le> max 0 (airplane_x ?s - width ?s * 0.3)"
    by (simp_all add: startGame_fields)
  from run_forward [OF assms(1) s(1,2)]
  have r: "0 \<le> airplane_velocity_x r"
    "distance r = max 0 ((airplane_x r - 100) / 50)"
    by (simp_all add: assms(2))
  note f = loop_forward [OF r, of timestamp env, folded assms(3)]
  have c: "camera_x a \<le> camera_x (loop timestamp' env' (resize w h a))" if "w \<le> width a" for w h
    using frame_resize_frame [OF r, of w timestamp env timestamp' env' h] that
    by (simp add: assms(3))
  have "camera_x a \<le> camera_x (loop timestamp' env' a)"
    using c [of "width a" "height a"] by (simp add: resize_same)
  moreover have "camera_x a = max 0 (airplane_x a - width a * 0.3)" if "state r = PLAYING"
    using loop_camera [OF that, of timestamp env] by (simp add: assms(3))
  moreover have "camera_x r \<le> camera_x a" if "\<forall>e\<in>set es. isFrame e"
    using f(6) [OF run_camera [OF that s, folded assms(2)]] by simp
  ultimately show ?thesis
    using r(1) f(1,3,4) c [of w h] by simp
qed

theorem run_moves_forward_witness:
  "withinRun (WindowResize 300 800)
   \<and> narrowBlown =
       loop 16 (steadyFrame 60)
         (run [WindowResize 300 800]
           (startGame 0 ((newGame 300 800 None (sconst (1 / 2)))
              \<lparr>audioController := snd (init True newAudioController)\<rparr>)))
   \<and> 0 < airplane_velocity_x narrowBlown
   \<and> 100 < airplane_x narrowBlown
   \<and> width narrowBlown = 300
   \<and> camera_x narrowBlown = max 0 (airplane_x narrowBlown - 300 * 0.3)
   \<and> camera_x narrowBlown < camera_x (loop 32 (steadyFrame 0) narrowBlown)
   \<and> camera_x narrowBlown < camera_x (loop 32 (steadyFrame 0) (resize 200 800 narrowBlown))"
proof -
  let ?s = "startGame 0 ((newGame 300 800 None (sconst (1 / 2)))
              \<lparr>audioController := snd (init True newAudioController)\<rparr>)"
  have s: "resize 300 800 ?s = ?s"
    using resize_same [of ?s] by (simp add: startGame_fields newGame_fields)
  have n: "loop 16 (steadyFrame 60) (resize 300 800 ?s) = narrowBlown"
    by (simp add: s narrowBlown_def startBtnClick_granted newGame_fields)
  have same: "resize 300 800 narrowBlown = narrowBlown"
    using resize_same [of narrowBlown] by (simp add: narrowBlown_fields)
  have h: "\<forall>e\<in>set [WindowResize 300 800]. withinRun e"
    by simp
  from run_moves_forward [where es = "[WindowResize 300 800]" and now = 0 and g = "(newGame 300 800 None (sconst (1 / 2)))
              \<lparr>audioController := snd (init True newAudioController)\<rparr>"
      and timestamp = 16 and env = "steadyFrame 60" and timestamp' = 32
      and env' = "steadyFrame 0" and w = 200 and h = 800, OF h refl refl]
    narrowBlown_next [of 300] narrowBlown_next [of 200]
  show ?thesis
    by (simp add: n same narrowBlown_fields startGame_fields resize_keeps)
qed

end
